theory Spec2Isabelle
  imports Main
begin

section \<open>Strings as the program sees them\<close>

text \<open>
  Strings are lists of characters. The model covers ASCII text: \<open>toLowerCase\<close> maps
  \<open>A\<close>..\<open>Z\<close> to \<open>a\<close>..\<open>z\<close> and leaves every other character alone. No character outside
  ASCII lower-cases to a hexadecimal digit, so the hexadecimal tests below give the
  program's answer on every input.
\<close>

definition upperAZ :: string where
  "upperAZ = ''ABCDEFGHIJKLMNOPQRSTUVWXYZ''"

definition lowerAZ :: string where
  "lowerAZ = ''abcdefghijklmnopqrstuvwxyz''"

definition toLowerChar :: "char \<Rightarrow> char" where
  "toLowerChar c = (case map_of (zip upperAZ lowerAZ) c of Some d \<Rightarrow> d | None \<Rightarrow> c)"

definition toLowerCase :: "string \<Rightarrow> string" where
  "toLowerCase s = map toLowerChar s"

definition startsWith :: "string \<Rightarrow> string \<Rightarrow> bool" where
  "startsWith s p = (take (length p) s = p)"

definition padStart :: "string \<Rightarrow> nat \<Rightarrow> char \<Rightarrow> string" where
  "padStart s n c = replicate (n - length s) c @ s"

text \<open>JavaScript truthiness of an optional string: \<open>undefined\<close> and \<open>''\<close> are falsy.\<close>

fun truthy :: "string option \<Rightarrow> bool" where
  "truthy None = False"
| "truthy (Some s) = (s \<noteq> [])"

section \<open>Errors and warnings\<close>

text \<open>
  Every \<open>throw new Error(...)\<close> of the source is a constructor; its arguments are the
  values the message interpolates. \<open>console.warn\<close> output is a list of warnings.
\<close>

datatype error =
    InvalidHexString string
  | HexStringTooLong string nat nat
  | InvalidAddress string string
  | InvalidHexFormat string string
  | CannotBeNegative string string
  | OutOfValidRange string string
  | BigIntSyntaxError string
  | InvalidTimeRange string string
  | InvalidVaultId int
  | ChainIdZero string
  | DomainNameEmpty
  | DomainVersionEmpty
  | UnsupportedChainId string
  | UnsupportedToken string
  | CreateRequestFailed string
  | QueryRequestFailed string
  | RequestDoesNotExist nat
  | SignatureRejected
  | SignatureExpired
  | PollingTimeout
  | FailedToRetrieveSignature
  | ServerReturnedError nat
  | IdentityAlreadyExists string
  | IdentityDoesNotExist string
  | IdentityFileUnreadable string
  | KeyDataRefused string

datatype warning =
    ValidAfterDistantFuture
  | ValidityWindowShort
  | NonceIsZero
  | ZeroAddress string
  | VersionNotNumeric string

section \<open>Hexadecimal utilities (utils/hex.ts)\<close>

text \<open>The character class \<open>[0-9a-f]\<close>.\<close>

definition isHexLower :: "char \<Rightarrow> bool" where
  "isHexLower c = (c \<in> set ''0123456789abcdef'')"

text \<open>
  \<open>padHex\<close>: lower-case, drop a leading \<open>0x\<close>, test \<open>/^[0-9a-f]*$/\<close>, test the length,
  left-pad with zeros, put \<open>0x\<close> in front.
\<close>

definition padHex :: "string \<Rightarrow> nat \<Rightarrow> error + string" where
  "padHex hexString targetLength =
    (let hex0 = toLowerCase hexString;
         hex = (if startsWith hex0 ''0x'' then drop 2 hex0 else hex0)
     in if \<not> list_all isHexLower hex then Inl (InvalidHexString hexString)
        else if length hex > targetLength
          then Inl (HexStringTooLong hexString (length hex) targetLength)
        else Inr (''0x'' @ padStart hex targetLength CHR ''0''))"

definition normalizeUint256 :: "string \<Rightarrow> error + string" where
  "normalizeUint256 hexString = padHex hexString 64"

text \<open>\<open>isValidHex\<close>: the same stripping, then \<open>/^[0-9a-f]+$/\<close> (at least one digit).\<close>

definition isValidHex :: "string \<Rightarrow> bool" where
  "isValidHex hexString =
    (let hex0 = toLowerCase hexString;
         hex = (if startsWith hex0 ''0x'' then drop 2 hex0 else hex0)
     in hex \<noteq> [] \<and> list_all isHexLower hex)"

subsection \<open>Reading a hexadecimal string as a number\<close>

text \<open>
  What the claims call the numeric value of a hexadecimal string: the digits after an
  optional \<open>0x\<close>/\<open>0X\<close>, most significant first. The definitions of this subsection
  state the properties; the program does not contain them (\<open>digitValue\<close> also serves
  the language's conversion below).
\<close>

definition isHexDigit :: "char \<Rightarrow> bool" where
  "isHexDigit c = (c \<in> set ''0123456789abcdefABCDEF'')"

definition digitValue :: "char \<Rightarrow> nat option" where
  "digitValue c = map_of
     [(CHR ''0'', 0), (CHR ''1'', 1), (CHR ''2'', 2), (CHR ''3'', 3), (CHR ''4'', 4),
      (CHR ''5'', 5), (CHR ''6'', 6), (CHR ''7'', 7), (CHR ''8'', 8), (CHR ''9'', 9),
      (CHR ''a'', 10), (CHR ''b'', 11), (CHR ''c'', 12), (CHR ''d'', 13), (CHR ''e'', 14),
      (CHR ''f'', 15),
      (CHR ''A'', 10), (CHR ''B'', 11), (CHR ''C'', 12), (CHR ''D'', 13), (CHR ''E'', 14),
      (CHR ''F'', 15)] c"

definition stripHexPrefix :: "string \<Rightarrow> string" where
  "stripHexPrefix h = (if take 2 h = ''0x'' \<or> take 2 h = ''0X'' then drop 2 h else h)"

definition hexDigitsValue :: "string \<Rightarrow> nat" where
  "hexDigitsValue ds =
     foldl (\<lambda>acc c. 16 * acc + (case digitValue c of Some d \<Rightarrow> d | None \<Rightarrow> 0)) 0 ds"

definition hexStringValue :: "string \<Rightarrow> nat" where
  "hexStringValue h = hexDigitsValue (stripHexPrefix h)"

section \<open>The language's string-to-bigint conversion\<close>

text \<open>
  \<open>BigInt(s)\<close> on a string, as ECMAScript defines it: surrounding white space is trimmed;
  the empty string is \<open>0n\<close>; \<open>0x\<close>, \<open>0o\<close>, \<open>0b\<close> (either case) introduce a non-empty
  unsigned hexadecimal, octal or binary literal; otherwise the string is a decimal
  literal with an optional sign. Anything else throws a \<open>SyntaxError\<close> (\<open>None\<close>).
  White space (also for \<open>trim\<close>) is the ASCII part of the language's set; every
  conversion below comes after \<open>isValidHex\<close> accepted the string, which excludes white
  space of any kind.
\<close>

definition isStrWhiteSpaceChar :: "char \<Rightarrow> bool" where
  "isStrWhiteSpaceChar c =
     (c \<in> set [CHR 0x09, CHR 0x0A, CHR 0x0B, CHR 0x0C, CHR 0x0D, CHR '' ''])"

definition trim :: "string \<Rightarrow> string" where
  "trim s = rev (dropWhile isStrWhiteSpaceChar (rev (dropWhile isStrWhiteSpaceChar s)))"

fun parseDigits :: "nat \<Rightarrow> string \<Rightarrow> nat \<Rightarrow> nat option" where
  "parseDigits base [] acc = Some acc"
| "parseDigits base (c # cs) acc =
     (case digitValue c of
        None \<Rightarrow> None
      | Some d \<Rightarrow> if d < base then parseDigits base cs (acc * base + d) else None)"

definition parseLiteral :: "nat \<Rightarrow> string \<Rightarrow> nat option" where
  "parseLiteral base ds = (if ds = [] then None else parseDigits base ds 0)"

definition BigInt :: "string \<Rightarrow> int option" where
  "BigInt s =
    (let t = trim s in
     if t = [] then Some 0
     else if take 2 t = ''0x'' \<or> take 2 t = ''0X''
       then map_option int (parseLiteral 16 (drop 2 t))
     else if take 2 t = ''0o'' \<or> take 2 t = ''0O''
       then map_option int (parseLiteral 8 (drop 2 t))
     else if take 2 t = ''0b'' \<or> take 2 t = ''0B''
       then map_option int (parseLiteral 2 (drop 2 t))
     else if take 1 t = ''+'' then map_option int (parseLiteral 10 (drop 1 t))
     else if take 1 t = ''-'' then map_option (\<lambda>n. - int n) (parseLiteral 10 (drop 1 t))
     else map_option int (parseLiteral 10 t))"

section \<open>Parameter validation (utils/validation.ts)\<close>

text \<open>
  A validator returns \<open>Inl\<close> of the error it throws, or \<open>Inr\<close> of the warnings it
  printed. \<open>thenValidate\<close> is the sequencing of two statements: the second runs only
  when the first did not throw.
\<close>

type_synonym validation = "error + warning list"

definition thenValidate :: "validation \<Rightarrow> validation \<Rightarrow> validation" where
  "thenValidate r1 r2 =
     (case r1 of
        Inl e \<Rightarrow> Inl e
      | Inr w1 \<Rightarrow> (case r2 of Inl e \<Rightarrow> Inl e | Inr w2 \<Rightarrow> Inr (w1 @ w2)))"

text \<open>The character class \<open>[a-fA-F0-9]\<close> and the test \<open>/^0x[a-fA-F0-9]{40}$/\<close>.\<close>

definition isHexAnyCase :: "char \<Rightarrow> bool" where
  "isHexAnyCase c = (c \<in> set ''abcdefABCDEF0123456789'')"

definition isValidEthereumAddress :: "string \<Rightarrow> bool" where
  "isValidEthereumAddress address =
     (take 2 address = ''0x'' \<and> length (drop 2 address) = 40
      \<and> list_all isHexAnyCase (drop 2 address))"

definition validateEthereumAddress :: "string \<Rightarrow> string \<Rightarrow> validation" where
  "validateEthereumAddress address fieldName =
     (if \<not> isValidEthereumAddress address then Inl (InvalidAddress fieldName address)
      else Inr [])"

text \<open>
  \<open>validateHexValue\<close>. The \<open>try\<close> block converts with \<open>BigInt\<close>; a \<open>SyntaxError\<close> is
  rethrown as "out of valid range", the block's own "cannot be negative" error as
  itself.
\<close>

definition validateHexValue :: "string \<Rightarrow> string \<Rightarrow> bool \<Rightarrow> validation" where
  "validateHexValue hexValue fieldName allowNegative =
    (let isNegative = startsWith hexValue ''-'';
         valueToCheck = (if isNegative then drop 1 hexValue else hexValue)
     in if \<not> isValidHex valueToCheck then Inl (InvalidHexFormat fieldName hexValue)
        else if isNegative \<and> \<not> allowNegative then Inl (CannotBeNegative fieldName hexValue)
        else (case BigInt hexValue of
                None \<Rightarrow> Inl (OutOfValidRange fieldName hexValue)
              | Some v \<Rightarrow>
                  if \<not> allowNegative \<and> v < 0 then Inl (CannotBeNegative fieldName hexValue)
                  else Inr []))"

text \<open>
  \<open>validateTimestamps\<close>; \<open>nowMs\<close> is what \<open>Date.now()\<close> returns. The two conversions
  after the format checks are outside any \<open>try\<close>.
\<close>

definition validateTimestamps :: "nat \<Rightarrow> string \<Rightarrow> string \<Rightarrow> validation" where
  "validateTimestamps nowMs validAfter validBefore =
    (case validateHexValue validAfter ''validAfter'' False of
       Inl e \<Rightarrow> Inl e
     | Inr w1 \<Rightarrow>
    (case validateHexValue validBefore ''validBefore'' False of
       Inl e \<Rightarrow> Inl e
     | Inr w2 \<Rightarrow>
    (case BigInt validAfter of
       None \<Rightarrow> Inl (BigIntSyntaxError validAfter)
     | Some afterValue \<Rightarrow>
    (case BigInt validBefore of
       None \<Rightarrow> Inl (BigIntSyntaxError validBefore)
     | Some beforeValue \<Rightarrow>
       if beforeValue \<le> afterValue then Inl (InvalidTimeRange validAfter validBefore)
       else Inr (w1 @ w2
         @ (if afterValue > 0 \<and> afterValue > int (nowMs div 1000) + 86400
            then [ValidAfterDistantFuture] else [])
         @ (if beforeValue - afterValue < 300 then [ValidityWindowShort] else []))))))"

definition validateNonce :: "string \<Rightarrow> validation" where
  "validateNonce nonce =
    (case validateHexValue nonce ''nonce'' False of
       Inl e \<Rightarrow> Inl e
     | Inr w \<Rightarrow>
    (case BigInt nonce of
       None \<Rightarrow> Inl (BigIntSyntaxError nonce)
     | Some nonceValue \<Rightarrow> Inr (w @ (if nonceValue = 0 then [NonceIsZero] else []))))"

definition validateVaultId :: "int \<Rightarrow> validation" where
  "validateVaultId vaultId = (if vaultId \<le> 0 then Inl (InvalidVaultId vaultId) else Inr [])"

definition validateContractAddress :: "string \<Rightarrow> string \<Rightarrow> validation" where
  "validateContractAddress contractAddress fieldName =
    (case validateEthereumAddress contractAddress fieldName of
       Inl e \<Rightarrow> Inl e
     | Inr w \<Rightarrow>
         Inr (w @ (if toLowerCase contractAddress = ''0x0000000000000000000000000000000000000000''
                   then [ZeroAddress fieldName] else [])))"

definition validateDomainChainId :: "string \<Rightarrow> validation" where
  "validateDomainChainId domainChainId =
    (if domainChainId = ''solana'' then Inr []
     else
    (case validateHexValue domainChainId ''domainChainId'' False of
       Inl e \<Rightarrow> Inl e
     | Inr w \<Rightarrow>
    (case BigInt domainChainId of
       None \<Rightarrow> Inl (BigIntSyntaxError domainChainId)
     | Some chainIdValue \<Rightarrow>
         if chainIdValue = 0 then Inl (ChainIdZero domainChainId) else Inr w)))"

text \<open>The character class \<open>\d\<close>.\<close>

definition isDecimalDigit :: "char \<Rightarrow> bool" where
  "isDecimalDigit c = (c \<in> set ''0123456789'')"

definition validateDomainParams :: "string \<Rightarrow> string \<Rightarrow> validation" where
  "validateDomainParams domainName domainVersion =
    (if domainName = [] \<or> trim domainName = [] then Inl DomainNameEmpty
     else if domainVersion = [] \<or> trim domainVersion = [] then Inl DomainVersionEmpty
     else Inr (if \<not> (domainVersion \<noteq> [] \<and> list_all isDecimalDigit domainVersion)
               then [VersionNotNumeric domainVersion] else []))"

text \<open>The fields of \<open>SignRequestParams\<close> (and of \<open>X402SignParams\<close>, which has the same).\<close>

record SignRequestParams =
  p_vaultId :: int
  p_to :: string
  p_value :: string
  p_validAfter :: string
  p_validBefore :: string
  p_nonce :: string
  p_verifyingContract :: string
  p_domainChainId :: string
  p_domainName :: string
  p_domainVersion :: string

definition validateSignRequestParams :: "nat \<Rightarrow> SignRequestParams \<Rightarrow> validation" where
  "validateSignRequestParams nowMs params =
    thenValidate (validateVaultId (p_vaultId params))
   (thenValidate (validateEthereumAddress (p_to params) ''recipient address (to)'')
   (thenValidate (validateHexValue (p_value params) ''transfer amount (value)'' False)
   (thenValidate (validateTimestamps nowMs (p_validAfter params) (p_validBefore params))
   (thenValidate (validateNonce (p_nonce params))
   (thenValidate (validateContractAddress (p_verifyingContract params)
                    ''verifying contract address (verifyingContract)'')
   (thenValidate (validateDomainChainId (p_domainChainId params))
                 (validateDomainParams (p_domainName params) (p_domainVersion params))))))))"

section \<open>Networks and tokens (types.ts)\<close>

datatype SupportedNetwork = Base | BaseSepolia | Solana

record TokenConfig =
  t_name :: string
  t_symbol :: string
  t_address :: string
  t_decimals :: nat

fun SUPPORTED_TOKENS :: "SupportedNetwork \<Rightarrow> TokenConfig list" where
  "SUPPORTED_TOKENS Base =
     [\<lparr>t_name = ''Ether'', t_symbol = ''ETH'',
        t_address = ''0x0000000000000000000000000000000000000000'', t_decimals = 18\<rparr>,
      \<lparr>t_name = ''USD Coin'', t_symbol = ''USDC'',
        t_address = ''0x833589fCD6eDb6E08f4c7C32D4f71b54bdA02913'', t_decimals = 6\<rparr>]"
| "SUPPORTED_TOKENS BaseSepolia =
     [\<lparr>t_name = ''Ether'', t_symbol = ''ETH'',
        t_address = ''0x0000000000000000000000000000000000000000'', t_decimals = 18\<rparr>,
      \<lparr>t_name = ''USD Coin'', t_symbol = ''USDC'',
        t_address = ''0x036CbD53842c5426634e7929541eC2318f3dCF7e'', t_decimals = 6\<rparr>]"
| "SUPPORTED_TOKENS Solana =
     [\<lparr>t_name = ''USD Coin'', t_symbol = ''USDC'',
        t_address = ''EPjFWdd5AufqSSqeM2qN1xzybapC8G4wEGGkZwyTDt1v'', t_decimals = 6\<rparr>,
      \<lparr>t_name = ''SOL'', t_symbol = ''SOL'',
        t_address = ''0x0000000000000000000000000000000000000000'', t_decimals = 9\<rparr>]"

text \<open>
  \<open>CHAIN_ID_TO_NETWORK[key]\<close> is a property read on an object literal: an own key
  gives its network, a name that \<open>Object.prototype\<close> defines gives an inherited
  (truthy) value that is no network, any other key gives \<open>undefined\<close>.
\<close>

datatype 'a lookup = Undefined | Own 'a | Inherited

definition objectPrototypeKeys :: "string list" where
  "objectPrototypeKeys =
     [''constructor'', ''__proto__'', ''hasOwnProperty'', ''isPrototypeOf'',
      ''propertyIsEnumerable'', ''toLocaleString'', ''toString'', ''valueOf'',
      ''__defineGetter__'', ''__defineSetter__'', ''__lookupGetter__'',
      ''__lookupSetter__'']"

definition CHAIN_ID_TO_NETWORK :: "string \<Rightarrow> SupportedNetwork lookup" where
  "CHAIN_ID_TO_NETWORK key =
     (if key = ''0x2105'' then Own Base
      else if key = ''0x14a34'' then Own BaseSepolia
      else if key = ''solana'' then Own Solana
      else if key \<in> set objectPrototypeKeys then Inherited
      else Undefined)"

text \<open>
  \<open>isSupportedToken\<close>. Called with an inherited value, \<open>SUPPORTED_TOKENS[network]\<close> is
  \<open>undefined\<close> (the value's string form is no key of the table) and the answer is
  \<open>false\<close>.
\<close>

definition isSupportedToken :: "SupportedNetwork lookup \<Rightarrow> string \<Rightarrow> bool" where
  "isSupportedToken network contractAddress =
     (case network of
        Own n \<Rightarrow>
          list_ex (\<lambda>token. toLowerCase (t_address token) = toLowerCase contractAddress)
            (SUPPORTED_TOKENS n)
      | _ \<Rightarrow> False)"

section \<open>The remote service and the effects of a call\<close>

text \<open>
  The action sent for signing, the record the service returns, and the client's view of
  it. Of \<open>RequestRecord\<close> only the fields the client reads are kept.
\<close>

record X402TransferWithAuthorizationAction =
  a_vault_id :: int
  a_to :: string
  a_value :: string
  a_valid_after :: string
  a_valid_before :: string
  a_nonce :: string
  a_verifying_contract :: string
  a_domain_chain_id :: string
  a_domain_name :: string
  a_domain_version :: string

record RequestRecord =
  r_status :: string
  r_execution_result :: "string option"
  r_executed_at :: "nat option"
  r_created_at :: nat

record SignatureResult =
  s_status :: string
  s_signature :: "string option"
  s_requestId :: nat
  s_createdAt :: nat
  s_executedAt :: "nat option"

text \<open>
  The program's effects are a trace of events, in order: the \<open>create_request\<close> update
  call with the action and the expiry it carries, each \<open>get_request\<close> query, each
  sleep of the polling loop, and the HTTP request to the paid service with the signature
  it presents.
\<close>

datatype event =
    CreateRequest X402TransferWithAuthorizationAction "nat option"
  | GetRequest nat
  | Sleep int
  | HttpGet string string

text \<open>
  The world outside: what \<open>create_request\<close> answers (an error text or a request
  identifier), what the \<open>k\<close>-th \<open>get_request\<close> query answers (an error text, or the
  optional record), and what the paid service answers to the signature (a failing HTTP
  status, or the body).
\<close>

record remote =
  create_reply :: "string + nat"
  get_reply :: "nat \<Rightarrow> string + RequestRecord option"
  http_reply :: "string \<Rightarrow> nat + string"

definition isGetRequest :: "event \<Rightarrow> bool" where
  "isGetRequest ev = (case ev of GetRequest _ \<Rightarrow> True | _ \<Rightarrow> False)"

definition isSleep :: "event \<Rightarrow> bool" where
  "isSleep ev = (case ev of Sleep _ \<Rightarrow> True | _ \<Rightarrow> False)"

definition fetches :: "event list \<Rightarrow> nat" where
  "fetches tr = length (filter isGetRequest tr)"

definition sleeps :: "event list \<Rightarrow> nat" where
  "sleeps tr = length (filter isSleep tr)"

section \<open>The canister client (canisters/x402.ts)\<close>

text \<open>
  \<open>createRequestOnly\<close>: normalise the four numeric fields, build the action, call
  \<open>create_request\<close> with no expiry. A failure of the call is rethrown with context.
\<close>

definition createRequestOnly ::
  "remote \<Rightarrow> SignRequestParams \<Rightarrow> event list \<Rightarrow> (error + nat) \<times> event list" where
  "createRequestOnly env params tr =
    (case normalizeUint256 (p_value params) of
       Inl e \<Rightarrow> (Inl e, tr)
     | Inr normalizedValue \<Rightarrow>
    (case normalizeUint256 (p_validAfter params) of
       Inl e \<Rightarrow> (Inl e, tr)
     | Inr normalizedValidAfter \<Rightarrow>
    (case normalizeUint256 (p_validBefore params) of
       Inl e \<Rightarrow> (Inl e, tr)
     | Inr normalizedValidBefore \<Rightarrow>
    (case normalizeUint256 (p_nonce params) of
       Inl e \<Rightarrow> (Inl e, tr)
     | Inr normalizedNonce \<Rightarrow>
       (let action = \<lparr>a_vault_id = p_vaultId params, a_to = p_to params,
              a_value = normalizedValue, a_valid_after = normalizedValidAfter,
              a_valid_before = normalizedValidBefore, a_nonce = normalizedNonce,
              a_verifying_contract = p_verifyingContract params,
              a_domain_chain_id = p_domainChainId params,
              a_domain_name = p_domainName params,
              a_domain_version = p_domainVersion params\<rparr>;
            tr' = tr @ [CreateRequest action None]
        in case create_reply env of
             Inl msg \<Rightarrow> (Inl (CreateRequestFailed msg), tr')
           | Inr requestId \<Rightarrow> (Inr requestId, tr'))))))"

text \<open>
  \<open>getRequest\<close>: one \<open>get_request\<close> query; the optional record comes back as an empty
  or one-element array. The query answered is the next one the service has not yet
  answered in this trace.
\<close>

definition getRequest ::
  "remote \<Rightarrow> nat \<Rightarrow> event list \<Rightarrow> (error + RequestRecord option) \<times> event list" where
  "getRequest env requestId tr =
    (case get_reply env (fetches tr) of
       Inl msg \<Rightarrow> (Inl (QueryRequestFailed msg), tr @ [GetRequest requestId])
     | Inr response \<Rightarrow> (Inr response, tr @ [GetRequest requestId]))"

section \<open>The SDK client (client.ts)\<close>

text \<open>
  \<open>createSignRequest\<close>: the chain table, the token list, then \<open>createRequestOnly\<close>.
  \<open>UnsupportedToken\<close> stands for the exception raised by the second \<open>throw\<close>
  statement (building its message calls \<open>getSupportedTokensMessage\<close>, which may itself
  throw); either way control leaves there.
\<close>

definition createSignRequest ::
  "remote \<Rightarrow> SignRequestParams \<Rightarrow> event list \<Rightarrow> (error + nat) \<times> event list" where
  "createSignRequest env params tr =
    (let network = CHAIN_ID_TO_NETWORK (p_domainChainId params)
     in if network = Undefined then (Inl (UnsupportedChainId (p_domainChainId params)), tr)
        else if \<not> isSupportedToken network (p_verifyingContract params)
          then (Inl (UnsupportedToken (p_verifyingContract params)), tr)
        else createRequestOnly env params tr)"

text \<open>
  \<open>getSignature\<close>: one query; a missing record is an error. Times are nanoseconds
  divided down to milliseconds; an execution time of zero is dropped, as the source's
  truthiness test does.
\<close>

definition getSignature ::
  "remote \<Rightarrow> nat \<Rightarrow> event list \<Rightarrow> (error + SignatureResult) \<times> event list" where
  "getSignature env requestId tr =
    (case getRequest env requestId tr of
       (Inl e, tr') \<Rightarrow> (Inl e, tr')
     | (Inr None, tr') \<Rightarrow> (Inl (RequestDoesNotExist requestId), tr')
     | (Inr (Some record), tr') \<Rightarrow>
         (let executed = (r_status record = ''Executed'' \<and> r_execution_result record \<noteq> None)
          in (Inr \<lparr>s_status = r_status record,
                   s_signature = (if executed then r_execution_result record else None),
                   s_requestId = requestId,
                   s_createdAt = r_created_at record div 1000000,
                   s_executedAt =
                     (if executed then
                        (case r_executed_at record of
                           None \<Rightarrow> None
                         | Some t \<Rightarrow> if t = 0 then None else Some (t div 1000000))
                      else None)\<rparr>, tr')))"

text \<open>
  The polling loop of \<open>callPaidService\<close>:
  \<^verbatim>\<open>while (attempts < maxAttempts) { attempts++; sleep; result = getSignature;
     if Executed break; else if Rejected throw; else if Expired throw }\<close>
  It returns the error thrown inside it, or the values of \<open>attempts\<close> and \<open>result\<close> on
  leaving the loop.
\<close>

function pollLoop ::
  "remote \<Rightarrow> nat \<Rightarrow> int \<Rightarrow> int \<Rightarrow> int \<Rightarrow> SignatureResult \<Rightarrow> event list
     \<Rightarrow> (error + int \<times> SignatureResult) \<times> event list" where
  "pollLoop env requestId maxAttempts interval attempts result tr =
    (if attempts < maxAttempts then
       (case getSignature env requestId (tr @ [Sleep interval]) of
          (Inl e, tr') \<Rightarrow> (Inl e, tr')
        | (Inr result', tr') \<Rightarrow>
            if s_status result' = ''Executed'' then (Inr (attempts + 1, result'), tr')
            else if s_status result' = ''Rejected'' then (Inl SignatureRejected, tr')
            else if s_status result' = ''Expired'' then (Inl SignatureExpired, tr')
            else pollLoop env requestId maxAttempts interval (attempts + 1) result' tr')
     else (Inr (attempts, result), tr))"
  by pat_completeness auto
termination
  by (relation "measure (\<lambda>(env, requestId, maxAttempts, interval, attempts, result, tr).
                  nat (maxAttempts - attempts))") auto

text \<open>
  The polling options. \<open>polling?.maxAttempts || 120\<close> and \<open>polling?.interval || 3000\<close>:
  an absent option and the number \<open>0\<close> both give the default. The options are
  integers here; the source's type is \<open>number\<close>.
\<close>

record pollingOptions =
  po_maxAttempts :: "int option"
  po_interval :: "int option"

definition orDefault :: "int option \<Rightarrow> int \<Rightarrow> int" where
  "orDefault x d = (case x of None \<Rightarrow> d | Some n \<Rightarrow> if n = 0 then d else n)"

definition pollingMaxAttempts :: "pollingOptions option \<Rightarrow> int" where
  "pollingMaxAttempts polling =
     orDefault (case polling of None \<Rightarrow> None | Some p \<Rightarrow> po_maxAttempts p) 120"

definition pollingInterval :: "pollingOptions option \<Rightarrow> int" where
  "pollingInterval polling =
     orDefault (case polling of None \<Rightarrow> None | Some p \<Rightarrow> po_interval p) 3000"

text \<open>
  \<open>callPaidService\<close>, from step 3 on. Steps 1 and 2 build the signature parameters with
  the external payment library; \<open>params\<close> is what step 3 passes to
  \<open>createSignRequest\<close>. Step 6 encodes the signed payload with the same library; the
  request to the paid service is recorded with the signature it carries.
\<close>

definition callPaidService ::
  "remote \<Rightarrow> SignRequestParams \<Rightarrow> string \<Rightarrow> pollingOptions option
     \<Rightarrow> (error + string) \<times> event list" where
  "callPaidService env params apiUrl polling =
    (case createSignRequest env params [] of
       (Inl e, tr0) \<Rightarrow> (Inl e, tr0)
     | (Inr requestId, tr0) \<Rightarrow>
    (case getSignature env requestId tr0 of
       (Inl e, tr1) \<Rightarrow> (Inl e, tr1)
     | (Inr result, tr1) \<Rightarrow>
    (case (if s_status result \<noteq> ''Executed'' then
             (case pollLoop env requestId (pollingMaxAttempts polling)
                     (pollingInterval polling) 0 result tr1 of
                (Inl e, tr2) \<Rightarrow> (Inl e, tr2)
              | (Inr (attempts, result'), tr2) \<Rightarrow>
                  if attempts \<ge> pollingMaxAttempts polling then (Inl PollingTimeout, tr2)
                  else (Inr result', tr2))
           else (Inr result, tr1)) of
       (Inl e, tr2) \<Rightarrow> (Inl e, tr2)
     | (Inr result, tr2) \<Rightarrow>
         if \<not> truthy (s_signature result) then (Inl FailedToRetrieveSignature, tr2)
         else
           (let signature = the (s_signature result);
                signatureWithPrefix =
                  (if startsWith signature ''0x'' then signature else ''0x'' @ signature);
                tr3 = tr2 @ [HttpGet apiUrl signatureWithPrefix]
            in case http_reply env signatureWithPrefix of
                 Inl status \<Rightarrow> (Inl (ServerReturnedError status), tr3)
               | Inr body \<Rightarrow> (Inr body, tr3)))))"

section \<open>The identity store (identity/manager.ts)\<close>

text \<open>
  The key-pair library is outside the repository. Of \<open>Ed25519KeyIdentity\<close> the store
  uses \<open>toJSON\<close> (the pair of hexadecimal strings of a key pair), \<open>fromJSON\<close> (the key
  pair of such a pair, or an exception, here \<open>None\<close>, when it refuses the data) and the
  text of the principal; they are the fields of \<open>keyLibrary\<close>, over any type \<open>'k\<close> of key
  pairs. A file either does not parse, or holds a stored document; an optional field
  that is \<open>undefined\<close> is left out of the written JSON and read back as \<open>undefined\<close>.
\<close>

record 'k keyLibrary =
  lib_toJSON :: "'k \<Rightarrow> string \<times> string"
  lib_fromJSON :: "string \<times> string \<Rightarrow> 'k option"
  lib_principalText :: "'k \<Rightarrow> string"

record IdentityStorageData =
  d_keyData :: "string \<times> string"
  d_principal :: string
  d_username :: "string option"
  d_displayName :: "string option"
  d_createdAt :: string
  d_updatedAt :: string

datatype fileContent = NotJson | Json IdentityStorageData

type_synonym fileSystem = "string \<rightharpoonup> fileContent"

record IdentityManager =
  identityDir :: string
  activeIdentity :: "string option"
  identityUsernameCache :: "string \<rightharpoonup> string option"
  identityDisplayNameCache :: "string \<rightharpoonup> string option"

text \<open>
  \<open>getKeyPath\<close> is \<open>path.join(identityDir, name + '.json')\<close>, for a directory and a
  name that \<open>path.join\<close> does not have to normalise.
\<close>

definition getKeyPath :: "IdentityManager \<Rightarrow> string \<Rightarrow> string" where
  "getKeyPath mgr name = identityDir mgr @ ''/'' @ name @ ''.json''"

text \<open>
  \<open>saveIdentity\<close>. \<open>createdNow\<close> and \<open>updatedNow\<close> are the two readings of the clock
  (\<open>new Date().toISOString()\<close>). When the file exists and parses, its creation time is
  kept and a falsy argument is replaced by a truthy stored value; when it does not
  parse, the \<open>catch\<close> keeps the arguments and the current time.
\<close>

definition saveIdentity ::
  "'k keyLibrary \<Rightarrow> string \<Rightarrow> string \<Rightarrow> IdentityManager \<Rightarrow> fileSystem
     \<Rightarrow> string \<Rightarrow> 'k \<Rightarrow> string option \<Rightarrow> string option
     \<Rightarrow> IdentityManager \<times> fileSystem" where
  "saveIdentity lib createdNow updatedNow mgr fs name identity username displayName =
    (let keyPath = getKeyPath mgr name;
         principal = lib_principalText lib identity;
         existing = (case fs keyPath of Some (Json existingData) \<Rightarrow> Some existingData
                                       | _ \<Rightarrow> None);
         createdAt = (case existing of None \<Rightarrow> createdNow
                                     | Some existingData \<Rightarrow> d_createdAt existingData);
         username' = (case existing of
                        None \<Rightarrow> username
                      | Some existingData \<Rightarrow>
                          if \<not> truthy username \<and> truthy (d_username existingData)
                          then d_username existingData else username);
         displayName' = (case existing of
                           None \<Rightarrow> displayName
                         | Some existingData \<Rightarrow>
                             if \<not> truthy displayName \<and> truthy (d_displayName existingData)
                             then d_displayName existingData else displayName);
         storageData = \<lparr>d_keyData = lib_toJSON lib identity, d_principal = principal,
                         d_username = username', d_displayName = displayName',
                         d_createdAt = createdAt, d_updatedAt = updatedNow\<rparr>;
         mgr1 = (if truthy username'
                 then mgr\<lparr>identityUsernameCache := (identityUsernameCache mgr)(name \<mapsto> username')\<rparr>
                 else mgr);
         mgr2 = (if truthy displayName'
                 then mgr1\<lparr>identityDisplayNameCache :=
                             (identityDisplayNameCache mgr1)(name \<mapsto> displayName')\<rparr>
                 else mgr1)
     in (mgr2, fs(keyPath \<mapsto> Json storageData)))"

text \<open>
  \<open>generateIdentity\<close>; \<open>newKey\<close> is the key pair that \<open>Ed25519KeyIdentity.generate()\<close>
  returns. A falsy display name is replaced by the default before the save.
\<close>

definition generateIdentity ::
  "'k keyLibrary \<Rightarrow> string \<Rightarrow> string \<Rightarrow> 'k
     \<Rightarrow> IdentityManager \<Rightarrow> fileSystem \<Rightarrow> string \<Rightarrow> bool \<Rightarrow> string option \<Rightarrow> string option
     \<Rightarrow> (error + 'k) \<times> IdentityManager \<times> fileSystem" where
  "generateIdentity lib createdNow updatedNow newKey mgr fs name overwrite
       username displayName =
    (if fs (getKeyPath mgr name) \<noteq> None \<and> \<not> overwrite
     then (Inl (IdentityAlreadyExists name), mgr, fs)
     else
       (let displayName' = (if \<not> truthy displayName then Some ''x402MultiSig'' else displayName);
            saved = saveIdentity lib createdNow updatedNow mgr fs name newKey
                      username displayName'
        in (Inr newKey, (fst saved)\<lparr>activeIdentity := Some name\<rparr>, snd saved)))"

text \<open>
  \<open>loadIdentity\<close>: the result, whether the principal-mismatch warning was printed, and
  the manager afterwards. A missing file, a file that does not parse and key data that
  \<open>fromJSON\<close> refuses each throw before the manager changes.
\<close>

definition loadIdentity ::
  "'k keyLibrary \<Rightarrow> IdentityManager \<Rightarrow> fileSystem \<Rightarrow> string
     \<Rightarrow> (error + 'k) \<times> bool \<times> IdentityManager" where
  "loadIdentity lib mgr fs name =
    (case fs (getKeyPath mgr name) of
       None \<Rightarrow> (Inl (IdentityDoesNotExist name), False, mgr)
     | Some NotJson \<Rightarrow> (Inl (IdentityFileUnreadable name), False, mgr)
     | Some (Json storageData) \<Rightarrow>
         (case lib_fromJSON lib (d_keyData storageData) of
            None \<Rightarrow> (Inl (KeyDataRefused name), False, mgr)
          | Some identity \<Rightarrow>
              (Inr identity, lib_principalText lib identity \<noteq> d_principal storageData,
               mgr\<lparr>activeIdentity := Some name,
                   identityUsernameCache :=
                     (identityUsernameCache mgr)(name \<mapsto> d_username storageData),
                   identityDisplayNameCache :=
                     (identityDisplayNameCache mgr)(name \<mapsto> d_displayName storageData)\<rparr>)))"

section \<open>Vocabulary of the properties\<close>

text \<open>
  A terminal status, and the events of \<open>n\<close> rounds of the polling loop (a sleep, then a
  query).
\<close>

definition isTerminal :: "string \<Rightarrow> bool" where
  "isTerminal status = (status = ''Executed'' \<or> status = ''Rejected'' \<or> status = ''Expired'')"

definition pollEvents :: "nat \<Rightarrow> int \<Rightarrow> nat \<Rightarrow> event list" where
  "pollEvents requestId interval n = concat (replicate n [Sleep interval, GetRequest requestId])"

section \<open>Example inputs\<close>

text \<open>
  The parameters of the SDK's own example (Base Sepolia USDC), a service that answers a
  given sequence of statuses (the last one from then on) and signs with \<open>abcd\<close> once
  executed, and polling options with two attempts.
\<close>

definition exampleParams :: SignRequestParams where
  "exampleParams =
     \<lparr>p_vaultId = 1, p_to = ''0x2f795904540BE35c3B66A9643F58DAC14E8fA30B'',
      p_value = ''0x3e8'', p_validAfter = ''0x0'', p_validBefore = ''0x67890abc'',
      p_nonce = ''0x123456'',
      p_verifyingContract = ''0x036CbD53842c5426634e7929541eC2318f3dCF7e'',
      p_domainChainId = ''0x14a34'', p_domainName = ''USDC'', p_domainVersion = ''2''\<rparr>"

definition exampleAction :: X402TransferWithAuthorizationAction where
  "exampleAction =
     \<lparr>a_vault_id = 1, a_to = ''0x2f795904540BE35c3B66A9643F58DAC14E8fA30B'',
      a_value = ''0x00000000000000000000000000000000000000000000000000000000000003e8'',
      a_valid_after = ''0x0000000000000000000000000000000000000000000000000000000000000000'',
      a_valid_before = ''0x0000000000000000000000000000000000000000000000000000000067890abc'',
      a_nonce = ''0x0000000000000000000000000000000000000000000000000000000000123456'',
      a_verifying_contract = ''0x036CbD53842c5426634e7929541eC2318f3dCF7e'',
      a_domain_chain_id = ''0x14a34'', a_domain_name = ''USDC'', a_domain_version = ''2''\<rparr>"

definition exampleRecord :: "string \<Rightarrow> RequestRecord" where
  "exampleRecord status =
     \<lparr>r_status = status,
      r_execution_result = (if status = ''Executed'' then Some ''abcd'' else None),
      r_executed_at = (if status = ''Executed'' then Some 9000000 else None),
      r_created_at = 5000000\<rparr>"

definition exampleService :: "string list \<Rightarrow> remote" where
  "exampleService statuses =
     \<lparr>create_reply = Inr 7,
      get_reply = (\<lambda>k. Inr (Some (exampleRecord
                     (if k < length statuses then statuses ! k else last statuses)))),
      http_reply = (\<lambda>signature. Inr ''sunny'')\<rparr>"

definition twoAttempts :: "pollingOptions option" where
  "twoAttempts = Some \<lparr>po_maxAttempts = Some 2, po_interval = Some 10\<rparr>"

text \<open>
  An identity manager over the directory \<open>ids\<close>, a key pair in its JSON form, a library
  that knows this one key pair, and a stored document for the identity \<open>default\<close> with
  the user name and display name given.
\<close>

definition exampleManager :: IdentityManager where
  "exampleManager =
     \<lparr>identityDir = ''ids'', activeIdentity = None,
      identityUsernameCache = Map.empty, identityDisplayNameCache = Map.empty\<rparr>"

definition exampleKey :: "string \<times> string" where
  "exampleKey = (''3059300506032b6570'', ''a1b2c3d4'')"

definition exampleLibrary :: "(string \<times> string) keyLibrary" where
  "exampleLibrary =
     \<lparr>lib_toJSON = (\<lambda>k. k),
      lib_fromJSON = (\<lambda>json. if json = exampleKey then Some exampleKey else None),
      lib_principalText = (\<lambda>k. ''principal-of-key'')\<rparr>"

definition exampleStored :: "string option \<Rightarrow> string option \<Rightarrow> IdentityStorageData" where
  "exampleStored username displayName =
     \<lparr>d_keyData = exampleKey, d_principal = ''principal-of-key'',
      d_username = username, d_displayName = displayName,
      d_createdAt = ''2024-01-01T00:00:00.000Z'', d_updatedAt = ''2024-01-01T00:00:00.000Z''\<rparr>"

definition exampleFiles :: "string option \<Rightarrow> string option \<Rightarrow> fileSystem" where
  "exampleFiles username displayName =
     [''ids/default.json'' \<mapsto> Json (exampleStored username displayName)]"

section \<open>Properties of the hexadecimal utilities\<close>

lemma isHexLower_toLowerChar: "isHexLower (toLowerChar c) = isHexDigit c"
  unfolding toLowerChar_def upperAZ_def lowerAZ_def isHexLower_def isHexDigit_def
  by simp

lemma digitValue_toLowerChar: "digitValue (toLowerChar c) = digitValue c"
  unfolding toLowerChar_def upperAZ_def lowerAZ_def digitValue_def
  by simp

lemma toLowerChar_eq_0: "toLowerChar c = CHR ''0'' \<longleftrightarrow> c = CHR ''0''"
  unfolding toLowerChar_def upperAZ_def lowerAZ_def by simp

lemma toLowerChar_eq_x: "toLowerChar c = CHR ''x'' \<longleftrightarrow> c = CHR ''x'' \<or> c = CHR ''X''"
  unfolding toLowerChar_def upperAZ_def lowerAZ_def by auto

lemma isHexLower_imp_isHexDigit: "isHexLower c \<Longrightarrow> isHexDigit c"
  by (auto simp: isHexLower_def isHexDigit_def)

lemma isHexDigit_lower: "isHexDigit c \<Longrightarrow> isHexDigit (toLowerChar c)"
  using isHexLower_imp_isHexDigit [of "toLowerChar c"] by (simp add: isHexLower_toLowerChar)

lemma toLowerChar_hex_id: "isHexLower c \<Longrightarrow> toLowerChar c = c"
  unfolding isHexLower_def
  by (simp, elim disjE; simp add: toLowerChar_def upperAZ_def lowerAZ_def)

text \<open>The program strips the prefix after lower-casing; that is stripping \<open>0x\<close> or \<open>0X\<close>.\<close>

lemma startsWith_lower_0x:
  "startsWith (toLowerCase h) ''0x'' \<longleftrightarrow> take 2 h = ''0x'' \<or> take 2 h = ''0X''"
proof (cases h)
  case Nil
  then show ?thesis by (simp add: startsWith_def toLowerCase_def)
next
  case (Cons a t)
  note outer = Cons
  show ?thesis
  proof (cases t)
    case Nil
    with outer show ?thesis by (simp add: startsWith_def toLowerCase_def)
  next
    case (Cons b u)
    with outer show ?thesis
      by (auto simp: startsWith_def toLowerCase_def toLowerChar_eq_0 toLowerChar_eq_x)
  qed
qed

lemma stripped_lower:
  "(if startsWith (toLowerCase h) ''0x'' then drop 2 (toLowerCase h) else toLowerCase h)
     = toLowerCase (stripHexPrefix h)"
  by (simp add: startsWith_lower_0x stripHexPrefix_def) (simp add: toLowerCase_def drop_map)

lemma list_all_lower: "list_all isHexLower (toLowerCase ds) = list_all isHexDigit ds"
  by (induction ds) (simp_all add: toLowerCase_def isHexLower_toLowerChar)

lemma padHex_unfold:
  "padHex h n =
     (if \<not> list_all isHexDigit (stripHexPrefix h) then Inl (InvalidHexString h)
      else if length (stripHexPrefix h) > n
        then Inl (HexStringTooLong h (length (stripHexPrefix h)) n)
      else Inr (''0x'' @ replicate (n - length (stripHexPrefix h)) CHR ''0''
                 @ toLowerCase (stripHexPrefix h)))"
  unfolding padHex_def Let_def stripped_lower list_all_lower padStart_def
  by (simp add: toLowerCase_def)

lemma isValidHex_unfold:
  "isValidHex h \<longleftrightarrow> stripHexPrefix h \<noteq> [] \<and> list_all isHexDigit (stripHexPrefix h)"
  unfolding isValidHex_def Let_def stripped_lower list_all_lower
  by (simp add: toLowerCase_def)

lemma foldl_value_zeros:
  "foldl (\<lambda>acc c. 16 * acc + (case digitValue c of Some d \<Rightarrow> d | None \<Rightarrow> 0)) 0
     (replicate k CHR ''0'') = (0::nat)"
  by (induction k) (simp_all add: digitValue_def)

lemma hexDigitsValue_pad: "hexDigitsValue (replicate k CHR ''0'' @ ds) = hexDigitsValue ds"
  by (simp add: hexDigitsValue_def foldl_value_zeros)

lemma hexDigitsValue_lower: "hexDigitsValue (toLowerCase ds) = hexDigitsValue ds"
proof -
  have "foldl (\<lambda>acc c. 16 * acc + (case digitValue c of Some d \<Rightarrow> d | None \<Rightarrow> 0)) a
          (map toLowerChar ds)
        = foldl (\<lambda>acc c. 16 * acc + (case digitValue c of Some d \<Rightarrow> d | None \<Rightarrow> 0)) a ds"
    for a :: nat
    by (induction ds arbitrary: a) (simp_all add: digitValue_toLowerChar)
  then show ?thesis by (simp add: hexDigitsValue_def toLowerCase_def)
qed

lemma canonical_digits:
  assumes "list_all isHexDigit ds" "length ds \<le> n"
  shows "list_all isHexDigit (replicate (n - length ds) CHR ''0'' @ toLowerCase ds)"
    and "length (replicate (n - length ds) CHR ''0'' @ toLowerCase ds) = n"
proof -
  have "isHexDigit CHR ''0''" by (simp add: isHexDigit_def)
  with assms(1) show "list_all isHexDigit (replicate (n - length ds) CHR ''0'' @ toLowerCase ds)"
    by (auto simp: list_all_iff toLowerCase_def isHexDigit_lower)
  from assms(2) show "length (replicate (n - length ds) CHR ''0'' @ toLowerCase ds) = n"
    by (simp add: toLowerCase_def)
qed

lemma padHex_fixpoint:
  assumes "list_all isHexLower ds" "length ds = n"
  shows "padHex (''0x'' @ ds) n = Inr (''0x'' @ ds)"
proof -
  have "toLowerCase ds = ds"
    using assms(1)
    by (induction ds) (simp_all add: toLowerCase_def toLowerChar_hex_id)
  moreover have "list_all isHexDigit ds"
    using assms(1) by (auto simp: list_all_iff isHexLower_imp_isHexDigit)
  ultimately show ?thesis
    using assms(2) by (simp add: padHex_unfold stripHexPrefix_def)
qed

lemma replicate_numeral: "replicate (numeral k) x = x # replicate (pred_numeral k) x"
  by (simp add: numeral_eq_Suc)

text \<open>
  C5. For every hexadecimal string \<open>h\<close> of at most 64 digits, with or without the
  \<open>0x\<close> prefix, \<open>normalizeUint256 h\<close> returns \<open>0x\<close> followed by exactly 64 hexadecimal
  digits with the numeric value of \<open>h\<close>, and normalising the result again returns it
  unchanged.
\<close>

theorem normalizeUint256_canonical:
  assumes "list_all isHexDigit (stripHexPrefix h)" and "length (stripHexPrefix h) \<le> 64"
  shows "\<exists>ds. normalizeUint256 h = Inr (''0x'' @ ds) \<and> length ds = 64
           \<and> list_all isHexDigit ds
           \<and> hexStringValue (''0x'' @ ds) = hexStringValue h
           \<and> normalizeUint256 (''0x'' @ ds) = Inr (''0x'' @ ds)"
proof -
  define ds where "ds = replicate (64 - length (stripHexPrefix h)) CHR ''0''
                          @ toLowerCase (stripHexPrefix h)"
  have res: "normalizeUint256 h = Inr (''0x'' @ ds)"
    using assms by (simp add: normalizeUint256_def padHex_unfold ds_def)
  have len: "length ds = 64"
    unfolding ds_def using canonical_digits(2) [OF assms] .
  have hex: "list_all isHexDigit ds"
    unfolding ds_def using canonical_digits(1) [OF assms] .
  have low: "list_all isHexLower ds"
  proof -
    have "list_all isHexLower (replicate (64 - length (stripHexPrefix h)) CHR ''0'')"
      by (simp add: list_all_iff isHexLower_def)
    with assms(1) show ?thesis
      by (simp add: ds_def list_all_lower)
  qed
  have val: "hexStringValue (''0x'' @ ds) = hexStringValue h"
    by (simp add: hexStringValue_def stripHexPrefix_def ds_def hexDigitsValue_pad
        hexDigitsValue_lower)
  have idem: "normalizeUint256 (''0x'' @ ds) = Inr (''0x'' @ ds)"
    unfolding normalizeUint256_def using padHex_fixpoint [OF low len] .
  from res len hex val idem show ?thesis by blast
qed

theorem normalizeUint256_canonical_witness:
  "list_all isHexDigit (stripHexPrefix ''0x3E8'') \<and> length (stripHexPrefix ''0x3E8'') \<le> 64
   \<and> normalizeUint256 ''0x3E8''
       = Inr ''0x00000000000000000000000000000000000000000000000000000000000003e8''
   \<and> hexStringValue ''0x00000000000000000000000000000000000000000000000000000000000003e8''
       = hexStringValue ''0x3E8''
   \<and> hexStringValue ''0x3E8'' = 1000"
proof -
  have a: "list_all isHexDigit (stripHexPrefix ''0x3E8'')"
    by (simp add: stripHexPrefix_def isHexDigit_def)
  have b: "length (stripHexPrefix ''0x3E8'') \<le> 64"
    by (simp add: stripHexPrefix_def)
  from normalizeUint256_canonical [OF a b]
  obtain ds where ds: "normalizeUint256 ''0x3E8'' = Inr (''0x'' @ ds)"
      "hexStringValue (''0x'' @ ds) = hexStringValue ''0x3E8''"
    by blast
  have c: "normalizeUint256 ''0x3E8''
      = Inr ''0x00000000000000000000000000000000000000000000000000000000000003e8''"
    by (simp add: normalizeUint256_def padHex_unfold stripHexPrefix_def isHexDigit_def
        toLowerCase_def toLowerChar_def upperAZ_def lowerAZ_def replicate_numeral)
  have d: "hexStringValue ''0x3E8'' = 1000"
    by (simp add: hexStringValue_def stripHexPrefix_def hexDigitsValue_def digitValue_def)
  from ds c have "hexStringValue
      ''0x00000000000000000000000000000000000000000000000000000000000003e8''
      = hexStringValue ''0x3E8''"
    by simp
  with a b c d show ?thesis by blast
qed

text \<open>
  C6. \<open>normalizeUint256\<close> throws for every input that, after an optional \<open>0x\<close> prefix,
  contains a character that is no hexadecimal digit ("Invalid hex string"), and for
  every input of more than 64 hexadecimal digits ("Hex string too long").
\<close>

theorem normalizeUint256_rejects:
  "(\<not> list_all isHexDigit (stripHexPrefix h)
      \<longrightarrow> normalizeUint256 h = Inl (InvalidHexString h))
   \<and> (list_all isHexDigit (stripHexPrefix h) \<and> length (stripHexPrefix h) > 64
      \<longrightarrow> normalizeUint256 h = Inl (HexStringTooLong h (length (stripHexPrefix h)) 64))"
  by (simp add: normalizeUint256_def padHex_unfold)

theorem normalizeUint256_rejects_witness:
  "\<not> list_all isHexDigit (stripHexPrefix ''0x12g'')
   \<and> normalizeUint256 ''0x12g'' = Inl (InvalidHexString ''0x12g'')
   \<and> list_all isHexDigit (stripHexPrefix (replicate 65 CHR ''1''))
   \<and> length (stripHexPrefix (replicate 65 CHR ''1'')) > 64
   \<and> normalizeUint256 (replicate 65 CHR ''1'')
       = Inl (HexStringTooLong (replicate 65 CHR ''1'') 65 64)"
proof -
  have a: "\<not> list_all isHexDigit (stripHexPrefix ''0x12g'')"
    by (simp add: stripHexPrefix_def isHexDigit_def)
  have s: "stripHexPrefix (replicate 65 CHR ''1'') = replicate 65 CHR ''1''"
    by (simp add: stripHexPrefix_def replicate_numeral)
  have b: "list_all isHexDigit (stripHexPrefix (replicate 65 CHR ''1''))"
    unfolding s by (simp add: list_all_iff isHexDigit_def)
  have c: "length (stripHexPrefix (replicate 65 CHR ''1'')) > 64"
    unfolding s by simp
  from normalizeUint256_rejects [of "''0x12g''"] a
  have d: "normalizeUint256 ''0x12g'' = Inl (InvalidHexString ''0x12g'')"
    by blast
  from normalizeUint256_rejects [of "replicate 65 CHR ''1''"] b c
  have "normalizeUint256 (replicate 65 CHR ''1'')
      = Inl (HexStringTooLong (replicate 65 CHR ''1'')
               (length (stripHexPrefix (replicate 65 CHR ''1''))) 64)"
    by blast
  then have e: "normalizeUint256 (replicate 65 CHR ''1'')
      = Inl (HexStringTooLong (replicate 65 CHR ''1'') 65 64)"
    unfolding s by simp
  from a b c d e show ?thesis by blast
qed

text \<open>
  C10. \<open>normalizeUint256\<close> accepts the empty inputs \<open>''\<close> and \<open>0x\<close> and returns \<open>0x\<close>
  followed by 64 zeros for both, although \<open>isValidHex\<close> is false on both.
\<close>

theorem normalizeUint256_accepts_empty:
  "normalizeUint256 ''''
     = Inr ''0x0000000000000000000000000000000000000000000000000000000000000000''
   \<and> normalizeUint256 ''0x''
     = Inr ''0x0000000000000000000000000000000000000000000000000000000000000000''
   \<and> \<not> isValidHex '''' \<and> \<not> isValidHex ''0x''"
  by (simp add: normalizeUint256_def padHex_unfold isValidHex_unfold stripHexPrefix_def
      toLowerCase_def replicate_numeral)

section \<open>Properties of the timestamp validator\<close>

text \<open>A value that passes the hex-value check converts to a big integer that is not negative.\<close>

lemma validateHexValue_pass:
  assumes "validateHexValue h fieldName False = Inr w"
  shows "\<exists>v. BigInt h = Some v \<and> 0 \<le> v \<and> validateHexValue h fieldName' False = Inr []"
  using assms
  by (auto simp: validateHexValue_def Let_def split: if_splits option.splits)

lemmas validator_eval =
  validateHexValue_def isValidHex_unfold stripHexPrefix_def isHexDigit_def startsWith_def
  BigInt_def trim_def isStrWhiteSpaceChar_def parseLiteral_def digitValue_def

text \<open>
  What the conversion returns: hexadecimal after \<open>0x\<close>, decimal without a prefix; a
  string with hexadecimal letters and no prefix does not convert.
\<close>

lemma BigInt_examples:
  "BigInt ''0x10'' = Some 16" "BigInt ''10'' = Some 10" "BigInt ''3e8'' = None"
  by (simp_all add: validator_eval)

text \<open>
  After both hex-value checks pass, \<open>validateTimestamps\<close> throws exactly when the value
  that \<open>BigInt\<close> returns for the second string is at most the one it returns for the
  first, whatever the clock says: the short-window and distant-future checks only warn.
\<close>

lemma validateTimestamps_compares_BigInt:
  assumes "validateHexValue a fa False = Inr wa" and "validateHexValue b fb False = Inr wb"
  shows "\<exists>va vb. BigInt a = Some va \<and> BigInt b = Some vb
           \<and> (isl (validateTimestamps nowMs a b) \<longleftrightarrow> vb \<le> va)
           \<and> (vb \<le> va \<longrightarrow> validateTimestamps nowMs a b = Inl (InvalidTimeRange a b))"
proof -
  from validateHexValue_pass [OF assms(1), of "''validAfter''"]
  obtain va where va: "BigInt a = Some va"
      "validateHexValue a ''validAfter'' False = Inr []"
    by blast
  from validateHexValue_pass [OF assms(2), of "''validBefore''"]
  obtain vb where vb: "BigInt b = Some vb"
      "validateHexValue b ''validBefore'' False = Inr []"
    by blast
  have "isl (validateTimestamps nowMs a b) \<longleftrightarrow> vb \<le> va"
    using va vb by (simp add: validateTimestamps_def)
  moreover have "vb \<le> va \<longrightarrow> validateTimestamps nowMs a b = Inl (InvalidTimeRange a b)"
    using va vb by (simp add: validateTimestamps_def)
  ultimately show ?thesis using va(1) vb(1) by blast
qed

text \<open>
  C7. A string of decimal digits without \<open>0x\<close> passes the hex-value check and is a
  hexadecimal string for \<open>isValidHex\<close> and \<open>normalizeUint256\<close>, but \<open>validateTimestamps\<close>
  converts it with \<open>BigInt\<close>, which reads it in base 10. With \<open>validAfter = 0x10\<close>
  (sixteen) and \<open>validBefore = 16\<close> (hexadecimal for twenty-two) both strings pass the
  check and \<open>validBefore\<close> is the greater, yet the call throws; with \<open>validAfter = 16\<close>
  and \<open>validBefore = 0x11\<close> (seventeen) \<open>validBefore\<close> is the smaller, yet the call does
  not throw.
\<close>

theorem validateTimestamps_reads_unprefixed_as_decimal:
  "validateHexValue ''0x10'' ''validAfter'' False = Inr []
   \<and> validateHexValue ''16'' ''validBefore'' False = Inr []
   \<and> hexStringValue ''0x10'' = 16 \<and> hexStringValue ''16'' = 22
   \<and> validateTimestamps 1700000000000 ''0x10'' ''16'' = Inl (InvalidTimeRange ''0x10'' ''16'')
   \<and> validateHexValue ''16'' ''validAfter'' False = Inr []
   \<and> validateHexValue ''0x11'' ''validBefore'' False = Inr []
   \<and> hexStringValue ''0x11'' = 17
   \<and> validateTimestamps 1700000000000 ''16'' ''0x11'' = Inr [ValidityWindowShort]
   \<and> isValidHex ''16''
   \<and> normalizeUint256 ''16''
       = Inr ''0x0000000000000000000000000000000000000000000000000000000000000016''"
proof -
  have h1: "validateHexValue ''0x10'' ''validAfter'' False = Inr []"
    by (simp add: validator_eval)
  have h2: "validateHexValue ''16'' ''validBefore'' False = Inr []"
    by (simp add: validator_eval)
  have h3: "validateHexValue ''16'' ''validAfter'' False = Inr []"
    by (simp add: validator_eval)
  have h4: "validateHexValue ''0x11'' ''validBefore'' False = Inr []"
    by (simp add: validator_eval)
  have b1: "BigInt ''0x10'' = Some 16" by (simp add: validator_eval)
  have b2: "BigInt ''16'' = Some 16" by (simp add: validator_eval)
  have b3: "BigInt ''0x11'' = Some 17" by (simp add: validator_eval)
  have v: "hexStringValue ''0x10'' = 16" "hexStringValue ''16'' = 22"
      "hexStringValue ''0x11'' = 17"
    by (simp_all add: hexStringValue_def stripHexPrefix_def hexDigitsValue_def digitValue_def)
  have t1: "validateTimestamps 1700000000000 ''0x10'' ''16''
      = Inl (InvalidTimeRange ''0x10'' ''16'')"
    by (simp add: validateTimestamps_def h1 h2 b1 b2)
  have t2: "validateTimestamps 1700000000000 ''16'' ''0x11'' = Inr [ValidityWindowShort]"
    by (simp add: validateTimestamps_def h3 h4 b2 b3)
  have c1: "isValidHex ''16''"
    by (simp add: isValidHex_unfold stripHexPrefix_def isHexDigit_def)
  have c2: "normalizeUint256 ''16''
      = Inr ''0x0000000000000000000000000000000000000000000000000000000000000016''"
    by (simp add: normalizeUint256_def padHex_unfold stripHexPrefix_def isHexDigit_def
        toLowerCase_def toLowerChar_def upperAZ_def lowerAZ_def replicate_numeral)
  from h1 h2 h3 h4 v t1 t2 c1 c2 show ?thesis by simp
qed

section \<open>Properties of request creation\<close>

lemma createRequestOnly_cases:
  "createRequestOnly env params tr =
     (if isl (normalizeUint256 (p_value params)) \<or> isl (normalizeUint256 (p_validAfter params))
         \<or> isl (normalizeUint256 (p_validBefore params)) \<or> isl (normalizeUint256 (p_nonce params))
      then (Inl (projl (if isl (normalizeUint256 (p_value params))
                        then normalizeUint256 (p_value params)
                        else if isl (normalizeUint256 (p_validAfter params))
                        then normalizeUint256 (p_validAfter params)
                        else if isl (normalizeUint256 (p_validBefore params))
                        then normalizeUint256 (p_validBefore params)
                        else normalizeUint256 (p_nonce params))), tr)
      else
        (case create_reply env of
           Inl msg \<Rightarrow> Inl (CreateRequestFailed msg)
         | Inr requestId \<Rightarrow> Inr requestId,
         tr @ [CreateRequest
                \<lparr>a_vault_id = p_vaultId params, a_to = p_to params,
                  a_value = projr (normalizeUint256 (p_value params)),
                  a_valid_after = projr (normalizeUint256 (p_validAfter params)),
                  a_valid_before = projr (normalizeUint256 (p_validBefore params)),
                  a_nonce = projr (normalizeUint256 (p_nonce params)),
                  a_verifying_contract = p_verifyingContract params,
                  a_domain_chain_id = p_domainChainId params,
                  a_domain_name = p_domainName params,
                  a_domain_version = p_domainVersion params\<rparr> None]))"
  by (simp add: createRequestOnly_def Let_def split: sum.splits)

lemma createSignRequest_local_failure:
  assumes "CHAIN_ID_TO_NETWORK (p_domainChainId params) = Undefined
     \<or> \<not> isSupportedToken (CHAIN_ID_TO_NETWORK (p_domainChainId params)) (p_verifyingContract params)
     \<or> isl (normalizeUint256 (p_value params)) \<or> isl (normalizeUint256 (p_validAfter params))
     \<or> isl (normalizeUint256 (p_validBefore params)) \<or> isl (normalizeUint256 (p_nonce params))"
  shows "\<exists>e. createSignRequest env params tr = (Inl e, tr)"
  using assms by (auto simp: createSignRequest_def Let_def createRequestOnly_cases)

lemma createSignRequest_sends:
  assumes "CHAIN_ID_TO_NETWORK (p_domainChainId params) \<noteq> Undefined"
    and "isSupportedToken (CHAIN_ID_TO_NETWORK (p_domainChainId params)) (p_verifyingContract params)"
    and "\<not> isl (normalizeUint256 (p_value params))"
    and "\<not> isl (normalizeUint256 (p_validAfter params))"
    and "\<not> isl (normalizeUint256 (p_validBefore params))"
    and "\<not> isl (normalizeUint256 (p_nonce params))"
  shows "\<exists>action. snd (createSignRequest env params tr) = tr @ [CreateRequest action None]
           \<and> a_to action = p_to params \<and> a_vault_id action = p_vaultId params"
  using assms by (simp add: createSignRequest_def Let_def createRequestOnly_cases)

lemma createSignRequest_ok:
  assumes "createSignRequest env params tr = (Inr requestId, tr')"
  shows "\<exists>action. tr' = tr @ [CreateRequest action None]"
  using assms
  by (auto simp: createSignRequest_def Let_def createRequestOnly_cases split: if_splits sum.splits)

text \<open>The SDK's example parameters pass the local checks and are submitted normalised.\<close>

lemma normalize_examples:
  "normalizeUint256 ''0x3e8''
     = Inr ''0x00000000000000000000000000000000000000000000000000000000000003e8''"
  "normalizeUint256 ''0x0''
     = Inr ''0x0000000000000000000000000000000000000000000000000000000000000000''"
  "normalizeUint256 ''0x67890abc''
     = Inr ''0x0000000000000000000000000000000000000000000000000000000067890abc''"
  "normalizeUint256 ''0x123456''
     = Inr ''0x0000000000000000000000000000000000000000000000000000000000123456''"
  by (simp_all add: normalizeUint256_def padHex_unfold stripHexPrefix_def isHexDigit_def
      toLowerCase_def toLowerChar_def upperAZ_def lowerAZ_def replicate_numeral)

lemma example_chain: "CHAIN_ID_TO_NETWORK ''0x14a34'' = Own BaseSepolia"
  by (simp add: CHAIN_ID_TO_NETWORK_def)

lemma example_token:
  "isSupportedToken (Own BaseSepolia) ''0x036CbD53842c5426634e7929541eC2318f3dCF7e''"
  by (simp add: isSupportedToken_def)

lemma example_create:
  "createSignRequest (exampleService statuses) (exampleParams\<lparr>p_to := recipient\<rparr>) []
     = (Inr 7, [CreateRequest (exampleAction\<lparr>a_to := recipient\<rparr>) None])"
  by (simp add: createSignRequest_def Let_def createRequestOnly_def exampleParams_def
      exampleAction_def exampleService_def example_chain example_token normalize_examples)

lemma example_create_plain:
  "createSignRequest (exampleService statuses) exampleParams []
     = (Inr 7, [CreateRequest exampleAction None])"
  using example_create [of statuses "p_to exampleParams"]
  by (simp add: exampleParams_def exampleAction_def)

text \<open>
  C4. As stated (every parameter set that fails the batch validator is refused before
  the \<open>create_request\<close> call) the claim fails: the creation path never runs the batch
  validator. A recipient that is no address fails the validator and is submitted all the
  same.
\<close>

theorem createSignRequest_unvalidated_counterexample:
  "validateSignRequestParams 1700000000000 (exampleParams\<lparr>p_to := ''0x123''\<rparr>)
     = Inl (InvalidAddress ''recipient address (to)'' ''0x123'')
   \<and> createSignRequest (exampleService [''Pending'']) (exampleParams\<lparr>p_to := ''0x123''\<rparr>) []
     = (Inr 7, [CreateRequest (exampleAction\<lparr>a_to := ''0x123''\<rparr>) None])"
proof -
  have "validateSignRequestParams 1700000000000 (exampleParams\<lparr>p_to := ''0x123''\<rparr>)
      = Inl (InvalidAddress ''recipient address (to)'' ''0x123'')"
    by (simp add: validateSignRequestParams_def thenValidate_def validateVaultId_def
        validateEthereumAddress_def isValidEthereumAddress_def exampleParams_def)
  with example_create [of "[''Pending'']" "''0x123''"] show ?thesis by simp
qed

text \<open>
  C4, amended. The checks the creation path does make before the call are the chain
  table, the token whitelist and the normalisation of \<open>value\<close>, \<open>validAfter\<close>,
  \<open>validBefore\<close> and \<open>nonce\<close>. \<open>createSignRequest\<close> throws with nothing sent exactly
  when one of them fails; a negative value such as \<open>-0x1\<close> is refused because \<open>-\<close> is no
  hexadecimal digit.
\<close>

theorem createSignRequest_throws_before_call_iff:
  "(\<exists>e. createSignRequest env params tr = (Inl e, tr)) \<longleftrightarrow>
     (CHAIN_ID_TO_NETWORK (p_domainChainId params) = Undefined
      \<or> \<not> isSupportedToken (CHAIN_ID_TO_NETWORK (p_domainChainId params))
            (p_verifyingContract params)
      \<or> isl (normalizeUint256 (p_value params)) \<or> isl (normalizeUint256 (p_validAfter params))
      \<or> isl (normalizeUint256 (p_validBefore params)) \<or> isl (normalizeUint256 (p_nonce params)))"
proof
  assume "\<exists>e. createSignRequest env params tr = (Inl e, tr)"
  then have unchanged: "snd (createSignRequest env params tr) = tr" by auto
  show "CHAIN_ID_TO_NETWORK (p_domainChainId params) = Undefined
      \<or> \<not> isSupportedToken (CHAIN_ID_TO_NETWORK (p_domainChainId params))
            (p_verifyingContract params)
      \<or> isl (normalizeUint256 (p_value params)) \<or> isl (normalizeUint256 (p_validAfter params))
      \<or> isl (normalizeUint256 (p_validBefore params)) \<or> isl (normalizeUint256 (p_nonce params))"
  proof (rule ccontr)
    assume "\<not> ?thesis"
    then obtain action where
      "snd (createSignRequest env params tr) = tr @ [CreateRequest action None]"
      using createSignRequest_sends [of params env tr] by auto
    with unchanged show False by simp
  qed
next
  assume "CHAIN_ID_TO_NETWORK (p_domainChainId params) = Undefined
      \<or> \<not> isSupportedToken (CHAIN_ID_TO_NETWORK (p_domainChainId params))
            (p_verifyingContract params)
      \<or> isl (normalizeUint256 (p_value params)) \<or> isl (normalizeUint256 (p_validAfter params))
      \<or> isl (normalizeUint256 (p_validBefore params)) \<or> isl (normalizeUint256 (p_nonce params))"
  then show "\<exists>e. createSignRequest env params tr = (Inl e, tr)"
    by (rule createSignRequest_local_failure)
qed

theorem createSignRequest_throws_before_call_iff_witness:
  "isl (normalizeUint256 ''-0x1'')
   \<and> createSignRequest (exampleService [''Pending'']) (exampleParams\<lparr>p_value := ''-0x1''\<rparr>) []
       = (Inl (InvalidHexString ''-0x1''), [])"
proof -
  have a: "normalizeUint256 ''-0x1'' = Inl (InvalidHexString ''-0x1'')"
    by (simp add: normalizeUint256_def padHex_unfold stripHexPrefix_def isHexDigit_def)
  then have b: "isl (normalizeUint256 (p_value (exampleParams\<lparr>p_value := ''-0x1''\<rparr>)))"
    by simp
  from createSignRequest_throws_before_call_iff
    [of "exampleService [''Pending'']" "exampleParams\<lparr>p_value := ''-0x1''\<rparr>" "[]"] b
  obtain e where e: "createSignRequest (exampleService [''Pending''])
      (exampleParams\<lparr>p_value := ''-0x1''\<rparr>) [] = (Inl e, [])"
    by blast
  have "createSignRequest (exampleService [''Pending''])
      (exampleParams\<lparr>p_value := ''-0x1''\<rparr>) [] = (Inl (InvalidHexString ''-0x1''), [])"
    using e
    by (simp add: createSignRequest_def Let_def createRequestOnly_def exampleParams_def
        example_chain example_token a)
  with a show ?thesis by simp
qed

text \<open>
  C9. \<open>createSignRequest\<close> throws before any remote call for every chain identifier
  other than \<open>0x2105\<close>, \<open>0x14a34\<close> and \<open>solana\<close>, and for every verifying contract that
  is not on the resolved network's token list; addresses are compared after
  lower-casing, so the comparison ignores the case of the hexadecimal digits.
\<close>

theorem createSignRequest_unsupported:
  "(p_domainChainId params \<notin> {''0x2105'', ''0x14a34'', ''solana''}
      \<longrightarrow> createSignRequest env params tr
            = (Inl (if p_domainChainId params \<in> set objectPrototypeKeys
                    then UnsupportedToken (p_verifyingContract params)
                    else UnsupportedChainId (p_domainChainId params)), tr))
   \<and> (CHAIN_ID_TO_NETWORK (p_domainChainId params) = Own n
       \<and> toLowerCase (p_verifyingContract params)
           \<notin> set (map (\<lambda>token. toLowerCase (t_address token)) (SUPPORTED_TOKENS n))
      \<longrightarrow> createSignRequest env params tr
            = (Inl (UnsupportedToken (p_verifyingContract params)), tr))
   \<and> (toLowerCase c = toLowerCase c' \<longrightarrow> isSupportedToken network c = isSupportedToken network c')"
proof (intro conjI impI)
  assume "p_domainChainId params \<notin> {''0x2105'', ''0x14a34'', ''solana''}"
  then show "createSignRequest env params tr
      = (Inl (if p_domainChainId params \<in> set objectPrototypeKeys
              then UnsupportedToken (p_verifyingContract params)
              else UnsupportedChainId (p_domainChainId params)), tr)"
    by (simp add: createSignRequest_def Let_def CHAIN_ID_TO_NETWORK_def isSupportedToken_def)
next
  assume a: "CHAIN_ID_TO_NETWORK (p_domainChainId params) = Own n
       \<and> toLowerCase (p_verifyingContract params)
           \<notin> set (map (\<lambda>token. toLowerCase (t_address token)) (SUPPORTED_TOKENS n))"
  have "\<not> isSupportedToken (Own n) (p_verifyingContract params)"
  proof
    assume "isSupportedToken (Own n) (p_verifyingContract params)"
    then obtain token where token: "token \<in> set (SUPPORTED_TOKENS n)"
        "toLowerCase (t_address token) = toLowerCase (p_verifyingContract params)"
      by (auto simp: isSupportedToken_def list_ex_iff)
    from token(1) have "toLowerCase (t_address token)
        \<in> set (map (\<lambda>token. toLowerCase (t_address token)) (SUPPORTED_TOKENS n))"
      by simp
    with token(2) a show False by simp
  qed
  with a show "createSignRequest env params tr
      = (Inl (UnsupportedToken (p_verifyingContract params)), tr)"
    by (simp add: createSignRequest_def Let_def)
next
  assume "toLowerCase c = toLowerCase c'"
  then show "isSupportedToken network c = isSupportedToken network c'"
    by (cases network) (simp_all add: isSupportedToken_def)
qed

theorem createSignRequest_unsupported_witness:
  "''0x1'' \<notin> {''0x2105'', ''0x14a34'', ''solana''}
   \<and> createSignRequest (exampleService [''Pending'']) (exampleParams\<lparr>p_domainChainId := ''0x1''\<rparr>) []
       = (Inl (UnsupportedChainId ''0x1''), [])
   \<and> createSignRequest (exampleService [''Pending''])
         (exampleParams\<lparr>p_verifyingContract := ''0x833589fCD6eDb6E08f4c7C32D4f71b54bdA02913''\<rparr>) []
       = (Inl (UnsupportedToken ''0x833589fCD6eDb6E08f4c7C32D4f71b54bdA02913''), [])
   \<and> isSupportedToken (Own BaseSepolia) ''0x036cbd53842c5426634e7929541ec2318f3dcf7e''"
proof -
  let ?env = "exampleService [''Pending'']"
  let ?p1 = "exampleParams\<lparr>p_domainChainId := ''0x1''\<rparr>"
  let ?p2 = "exampleParams\<lparr>p_verifyingContract := ''0x833589fCD6eDb6E08f4c7C32D4f71b54bdA02913''\<rparr>"
  have a: "''0x1'' \<notin> {''0x2105'', ''0x14a34'', ''solana''}" by simp
  have a': "p_domainChainId ?p1 \<notin> {''0x2105'', ''0x14a34'', ''solana''}" by simp
  have k: "p_domainChainId ?p1 \<notin> set objectPrototypeKeys"
    by (simp add: objectPrototypeKeys_def)
  from createSignRequest_unsupported [of ?p1 ?env "[]"] a' k
  have b: "createSignRequest ?env ?p1 [] = (Inl (UnsupportedChainId ''0x1''), [])"
    by simp
  have n: "CHAIN_ID_TO_NETWORK (p_domainChainId ?p2) = Own BaseSepolia"
    by (simp add: exampleParams_def example_chain)
  have m: "toLowerCase (p_verifyingContract ?p2)
      \<notin> set (map (\<lambda>token. toLowerCase (t_address token)) (SUPPORTED_TOKENS BaseSepolia))"
    by (simp add: toLowerCase_def toLowerChar_def upperAZ_def lowerAZ_def)
  from createSignRequest_unsupported [of ?p2 ?env "[]" BaseSepolia] n m
  have c: "createSignRequest ?env ?p2 []
      = (Inl (UnsupportedToken ''0x833589fCD6eDb6E08f4c7C32D4f71b54bdA02913''), [])"
    by simp
  have l: "toLowerCase ''0x036cbd53842c5426634e7929541ec2318f3dcf7e''
      = toLowerCase ''0x036CbD53842c5426634e7929541eC2318f3dCF7e''"
    by (simp add: toLowerCase_def toLowerChar_def upperAZ_def lowerAZ_def)
  from createSignRequest_unsupported
    [of ?p1 ?env "[]" BaseSepolia "''0x036cbd53842c5426634e7929541ec2318f3dcf7e''"
        "''0x036CbD53842c5426634e7929541eC2318f3dCF7e''" "Own BaseSepolia"] l example_token
  have d: "isSupportedToken (Own BaseSepolia) ''0x036cbd53842c5426634e7929541ec2318f3dcf7e''"
    by blast
  from a b c d show ?thesis by blast
qed

section \<open>Properties of the polling loop\<close>

declare pollLoop.simps [simp del]

lemma fetches_simps [simp]:
  "fetches [] = 0"
  "fetches (tr @ tr') = fetches tr + fetches tr'"
  "fetches (Sleep i # tr) = fetches tr"
  "fetches (GetRequest r # tr) = Suc (fetches tr)"
  "fetches (CreateRequest a x # tr) = fetches tr"
  "fetches (HttpGet u sg # tr) = fetches tr"
  by (simp_all add: fetches_def isGetRequest_def)

lemma sleeps_simps [simp]:
  "sleeps [] = 0"
  "sleeps (tr @ tr') = sleeps tr + sleeps tr'"
  "sleeps (Sleep i # tr) = Suc (sleeps tr)"
  "sleeps (GetRequest r # tr) = sleeps tr"
  "sleeps (CreateRequest a x # tr) = sleeps tr"
  "sleeps (HttpGet u sg # tr) = sleeps tr"
  by (simp_all add: sleeps_def isSleep_def)

lemma pollEvents_simps [simp]:
  "pollEvents r i 0 = []"
  "pollEvents r i (Suc n) = Sleep i # GetRequest r # pollEvents r i n"
  by (simp_all add: pollEvents_def)

lemma pollEvents_snoc: "pollEvents r i n @ [Sleep i, GetRequest r] = pollEvents r i (Suc n)"
  by (induction n) simp_all

lemma fetches_pollEvents [simp]: "fetches (pollEvents r i n) = n"
  by (induction n) simp_all

lemma sleeps_pollEvents [simp]: "sleeps (pollEvents r i n) = n"
  by (induction n) simp_all

text \<open>One query that finds a record.\<close>

lemma getSignature_present:
  assumes "get_reply env (fetches tr) = Inr (Some record)"
  shows "\<exists>res. getSignature env requestId tr = (Inr res, tr @ [GetRequest requestId])
           \<and> s_status res = r_status record
           \<and> s_signature res =
               (if r_status record = ''Executed'' then r_execution_result record else None)"
  using assms by (auto simp: getSignature_def getRequest_def Let_def)

text \<open>The loop, one round at a time.\<close>

lemma pollLoop_exit:
  "\<not> attempts < m \<Longrightarrow>
     pollLoop env requestId m iv attempts result tr = (Inr (attempts, result), tr)"
  by (subst pollLoop.simps) simp

lemma pollLoop_step:
  assumes "attempts < m" and "get_reply env (fetches tr) = Inr (Some record)"
  shows "\<exists>res. s_status res = r_status record
           \<and> s_signature res =
               (if r_status record = ''Executed'' then r_execution_result record else None)
           \<and> pollLoop env requestId m iv attempts result tr =
               (if r_status record = ''Executed''
                  then (Inr (attempts + 1, res), tr @ [Sleep iv, GetRequest requestId])
                else if r_status record = ''Rejected''
                  then (Inl SignatureRejected, tr @ [Sleep iv, GetRequest requestId])
                else if r_status record = ''Expired''
                  then (Inl SignatureExpired, tr @ [Sleep iv, GetRequest requestId])
                else pollLoop env requestId m iv (attempts + 1) res
                       (tr @ [Sleep iv, GetRequest requestId]))"
proof -
  have "get_reply env (fetches (tr @ [Sleep iv])) = Inr (Some record)"
    using assms(2) by simp
  from getSignature_present [OF this, of requestId]
  obtain res where res: "getSignature env requestId (tr @ [Sleep iv])
        = (Inr res, (tr @ [Sleep iv]) @ [GetRequest requestId])"
      "s_status res = r_status record"
      "s_signature res =
         (if r_status record = ''Executed'' then r_execution_result record else None)"
    by blast
  have "pollLoop env requestId m iv attempts result tr =
      (if r_status record = ''Executed''
         then (Inr (attempts + 1, res), tr @ [Sleep iv, GetRequest requestId])
       else if r_status record = ''Rejected''
         then (Inl SignatureRejected, tr @ [Sleep iv, GetRequest requestId])
       else if r_status record = ''Expired''
         then (Inl SignatureExpired, tr @ [Sleep iv, GetRequest requestId])
       else pollLoop env requestId m iv (attempts + 1) res
              (tr @ [Sleep iv, GetRequest requestId]))"
    using assms(1) res(1,2) by (subst pollLoop.simps) simp
  with res(2,3) show ?thesis by blast
qed

text \<open>\<open>n\<close> rounds that each observe a status that is not terminal.\<close>

lemma pollLoop_pending:
  assumes "\<forall>j<n. \<exists>record. get_reply env (fetches tr + j) = Inr (Some record)
                      \<and> \<not> isTerminal (r_status record)"
    and "attempts + int n \<le> m"
  shows "\<exists>res. pollLoop env requestId m iv attempts result tr
           = pollLoop env requestId m iv (attempts + int n) res (tr @ pollEvents requestId iv n)"
  using assms
proof (induction n arbitrary: attempts result tr)
  case 0
  have "pollLoop env requestId m iv attempts result tr
      = pollLoop env requestId m iv (attempts + int 0) result (tr @ pollEvents requestId iv 0)"
    by simp
  then show ?case ..
next
  case (Suc n)
  from Suc.prems(1) [rule_format, of 0] obtain r0 where
    r0: "get_reply env (fetches tr) = Inr (Some r0)" "\<not> isTerminal (r_status r0)"
    by auto
  have lt: "attempts < m" using Suc.prems(2) by simp
  from pollLoop_step [OF lt r0(1), of requestId iv result] r0(2)
  obtain res0 where step: "pollLoop env requestId m iv attempts result tr
      = pollLoop env requestId m iv (attempts + 1) res0 (tr @ [Sleep iv, GetRequest requestId])"
    by (auto simp: isTerminal_def)
  have later: "\<forall>j<n. \<exists>record. get_reply env (fetches (tr @ [Sleep iv, GetRequest requestId]) + j)
        = Inr (Some record) \<and> \<not> isTerminal (r_status record)"
  proof (intro allI impI)
    fix j assume "j < n"
    then have "Suc j < Suc n" by simp
    from Suc.prems(1) [rule_format, OF this]
    show "\<exists>record. get_reply env (fetches (tr @ [Sleep iv, GetRequest requestId]) + j)
        = Inr (Some record) \<and> \<not> isTerminal (r_status record)"
      by simp
  qed
  have bound: "(attempts + 1) + int n \<le> m" using Suc.prems(2) by simp
  from Suc.IH [OF later bound, of res0]
  obtain res where rest:
    "pollLoop env requestId m iv (attempts + 1) res0 (tr @ [Sleep iv, GetRequest requestId])
      = pollLoop env requestId m iv (attempts + 1 + int n) res
          ((tr @ [Sleep iv, GetRequest requestId]) @ pollEvents requestId iv n)"
    by blast
  have e1: "attempts + 1 + int n = attempts + int (Suc n)" by simp
  have e2: "(tr @ [Sleep iv, GetRequest requestId]) @ pollEvents requestId iv n
      = tr @ pollEvents requestId iv (Suc n)" by simp
  have "pollLoop env requestId m iv attempts result tr
      = pollLoop env requestId m iv (attempts + int (Suc n)) res
          (tr @ pollEvents requestId iv (Suc n))"
    using step rest unfolding e1 e2 by (rule trans)
  then show ?case ..
qed

text \<open>Only non-terminal statuses: the loop runs its full count and leaves at the bound.\<close>

lemma pollLoop_timeout:
  assumes "\<forall>j. \<exists>record. get_reply env (fetches tr + j) = Inr (Some record)
                    \<and> \<not> isTerminal (r_status record)"
  shows "\<exists>attempts res. pollLoop env requestId m iv 0 result tr
           = (Inr (attempts, res), tr @ pollEvents requestId iv (nat m)) \<and> m \<le> attempts"
proof (cases "0 < m")
  case False
  then have "pollLoop env requestId m iv 0 result tr = (Inr (0, result), tr)"
    by (simp add: pollLoop_exit)
  with False show ?thesis by simp
next
  case True
  have pend: "\<forall>j<nat m. \<exists>record. get_reply env (fetches tr + j) = Inr (Some record)
                    \<and> \<not> isTerminal (r_status record)"
    using assms by simp
  have bound: "0 + int (nat m) \<le> m" using True by simp
  from pollLoop_pending [OF pend bound, of requestId iv result]
  obtain res where "pollLoop env requestId m iv 0 result tr
      = pollLoop env requestId m iv (0 + int (nat m)) res (tr @ pollEvents requestId iv (nat m))"
    by blast
  moreover have "0 + int (nat m) = m" using True by simp
  ultimately have "pollLoop env requestId m iv 0 result tr
      = (Inr (m, res), tr @ pollEvents requestId iv (nat m))"
    by (simp add: pollLoop_exit)
  then show ?thesis by simp
qed

text \<open>\<open>n\<close> non-terminal rounds, then a round that observes \<open>final\<close>.\<close>

lemma pollLoop_pending_then:
  assumes "\<forall>j<n. \<exists>record. get_reply env (fetches tr + j) = Inr (Some record)
                      \<and> \<not> isTerminal (r_status record)"
    and "get_reply env (fetches tr + n) = Inr (Some final)"
    and "isTerminal (r_status final)"
    and "int n < m"
  shows "\<exists>res. s_signature res =
               (if r_status final = ''Executed'' then r_execution_result final else None)
           \<and> pollLoop env requestId m iv 0 result tr =
               (if r_status final = ''Executed'' then Inr (int n + 1, res)
                else if r_status final = ''Rejected'' then Inl SignatureRejected
                else Inl SignatureExpired,
                tr @ pollEvents requestId iv (Suc n))"
proof -
  have bound: "0 + int n \<le> m" using assms(4) by simp
  from pollLoop_pending [OF assms(1) bound, of requestId iv result]
  obtain res0 where run: "pollLoop env requestId m iv 0 result tr
      = pollLoop env requestId m iv (0 + int n) res0 (tr @ pollEvents requestId iv n)"
    by blast
  have lt: "0 + int n < m" using assms(4) by simp
  have reply: "get_reply env (fetches (tr @ pollEvents requestId iv n)) = Inr (Some final)"
    using assms(2) by simp
  from pollLoop_step [OF lt reply, of requestId iv res0] assms(3)
  obtain res where res:
    "s_signature res = (if r_status final = ''Executed'' then r_execution_result final else None)"
    "pollLoop env requestId m iv (0 + int n) res0 (tr @ pollEvents requestId iv n) =
       (if r_status final = ''Executed'' then Inr (int n + 1, res)
        else if r_status final = ''Rejected'' then Inl SignatureRejected
        else Inl SignatureExpired,
        (tr @ pollEvents requestId iv n) @ [Sleep iv, GetRequest requestId])"
    by (auto simp: isTerminal_def)
  have "(tr @ pollEvents requestId iv n) @ [Sleep iv, GetRequest requestId]
      = tr @ pollEvents requestId iv (Suc n)"
    using pollEvents_snoc [of requestId iv n] by simp
  with run res show ?thesis by metis
qed

text \<open>The immediate fetch, right after a successful creation.\<close>

lemma first_fetch:
  assumes "createSignRequest env params [] = (Inr requestId, tr0)"
    and "get_reply env 0 = Inr (Some first)"
  shows "fetches tr0 = 0 \<and> sleeps tr0 = 0
         \<and> (\<exists>res. getSignature env requestId tr0 = (Inr res, tr0 @ [GetRequest requestId])
               \<and> s_status res = r_status first
               \<and> s_signature res =
                   (if r_status first = ''Executed'' then r_execution_result first else None))"
proof -
  from createSignRequest_ok [OF assms(1)] obtain action where
    tr0: "tr0 = [CreateRequest action None]"
    by auto
  then have "get_reply env (fetches tr0) = Inr (Some first)"
    using assms(2) by simp
  from getSignature_present [OF this, of requestId] tr0 show ?thesis by simp
qed

lemma callPaidService_all_pending:
  assumes "createSignRequest env params [] = (Inr requestId, tr0)"
    and "\<forall>k. \<exists>record. get_reply env k = Inr (Some record) \<and> \<not> isTerminal (r_status record)"
  shows "callPaidService env params apiUrl polling
           = (Inl PollingTimeout,
              tr0 @ GetRequest requestId
                # pollEvents requestId (pollingInterval polling) (nat (pollingMaxAttempts polling)))"
proof -
  from assms(2) obtain first where
    first: "get_reply env 0 = Inr (Some first)" "\<not> isTerminal (r_status first)"
    by blast
  from first_fetch [OF assms(1) first(1)] obtain res0 where
    g: "getSignature env requestId tr0 = (Inr res0, tr0 @ [GetRequest requestId])"
      "s_status res0 = r_status first"
    by blast
  have notExecuted: "s_status res0 \<noteq> ''Executed''"
    using g(2) first(2) by (simp add: isTerminal_def)
  have "\<forall>j. \<exists>record. get_reply env (fetches (tr0 @ [GetRequest requestId]) + j)
        = Inr (Some record) \<and> \<not> isTerminal (r_status record)"
    using assms(2) by blast
  from pollLoop_timeout [OF this, of requestId "pollingMaxAttempts polling"
      "pollingInterval polling" res0]
  obtain attempts res where
    p: "pollLoop env requestId (pollingMaxAttempts polling) (pollingInterval polling) 0 res0
          (tr0 @ [GetRequest requestId])
        = (Inr (attempts, res), (tr0 @ [GetRequest requestId])
             @ pollEvents requestId (pollingInterval polling) (nat (pollingMaxAttempts polling)))"
      "pollingMaxAttempts polling \<le> attempts"
    by blast
  show ?thesis
    using notExecuted p(2) by (simp add: callPaidService_def assms(1) g(1) p(1))
qed

lemma callPaidService_pending_then:
  assumes "createSignRequest env params [] = (Inr requestId, tr0)"
    and "get_reply env 0 = Inr (Some first)" and "r_status first \<noteq> ''Executed''"
    and "\<forall>j<n. \<exists>record. get_reply env (Suc j) = Inr (Some record)
                      \<and> \<not> isTerminal (r_status record)"
    and "get_reply env (Suc n) = Inr (Some final)"
    and "isTerminal (r_status final)"
    and "int n < pollingMaxAttempts polling"
  shows "callPaidService env params apiUrl polling =
     (let tr = tr0 @ GetRequest requestId # pollEvents requestId (pollingInterval polling) (Suc n)
      in if r_status final = ''Rejected'' then (Inl SignatureRejected, tr)
         else if r_status final = ''Expired'' then (Inl SignatureExpired, tr)
         else if int n + 1 \<ge> pollingMaxAttempts polling then (Inl PollingTimeout, tr)
         else if \<not> truthy (r_execution_result final) then (Inl FailedToRetrieveSignature, tr)
         else
           (let signature = the (r_execution_result final);
                signatureWithPrefix =
                  (if startsWith signature ''0x'' then signature else ''0x'' @ signature)
            in (case http_reply env signatureWithPrefix of
                  Inl status \<Rightarrow> Inl (ServerReturnedError status)
                | Inr body \<Rightarrow> Inr body,
                tr @ [HttpGet apiUrl signatureWithPrefix])))"
proof -
  from first_fetch [OF assms(1,2)] obtain res0 where
    g: "getSignature env requestId tr0 = (Inr res0, tr0 @ [GetRequest requestId])"
      "s_status res0 = r_status first" and f0: "fetches tr0 = 0"
    by blast
  have notExecuted: "s_status res0 \<noteq> ''Executed''"
    using g(2) assms(3) by simp
  have pend: "\<forall>j<n. \<exists>record. get_reply env (fetches (tr0 @ [GetRequest requestId]) + j)
        = Inr (Some record) \<and> \<not> isTerminal (r_status record)"
    using assms(4) f0 by simp
  have fin: "get_reply env (fetches (tr0 @ [GetRequest requestId]) + n) = Inr (Some final)"
    using assms(5) f0 by simp
  from pollLoop_pending_then [OF pend fin assms(6,7), of requestId "pollingInterval polling" res0]
  obtain res where res:
    "s_signature res = (if r_status final = ''Executed'' then r_execution_result final else None)"
    "pollLoop env requestId (pollingMaxAttempts polling) (pollingInterval polling) 0 res0
        (tr0 @ [GetRequest requestId]) =
       (if r_status final = ''Executed'' then Inr (int n + 1, res)
        else if r_status final = ''Rejected'' then Inl SignatureRejected
        else Inl SignatureExpired,
        (tr0 @ [GetRequest requestId]) @ pollEvents requestId (pollingInterval polling) (Suc n))"
    by blast
  show ?thesis
    using notExecuted assms(6) res(1)
    by (auto simp: callPaidService_def assms(1) g(1) res(2) Let_def isTerminal_def
        split: sum.splits)
qed

lemma callPaidService_executed_immediately:
  assumes "createSignRequest env params [] = (Inr requestId, tr0)"
    and "get_reply env 0 = Inr (Some first)" and "r_status first = ''Executed''"
    and "truthy (r_execution_result first)"
  shows "callPaidService env params apiUrl polling =
     (let signature = the (r_execution_result first);
          signatureWithPrefix =
            (if startsWith signature ''0x'' then signature else ''0x'' @ signature)
      in (case http_reply env signatureWithPrefix of
            Inl status \<Rightarrow> Inl (ServerReturnedError status)
          | Inr body \<Rightarrow> Inr body,
          tr0 @ [GetRequest requestId, HttpGet apiUrl signatureWithPrefix]))"
proof -
  from first_fetch [OF assms(1,2)] obtain res0 where
    g: "getSignature env requestId tr0 = (Inr res0, tr0 @ [GetRequest requestId])"
      "s_status res0 = r_status first"
      "s_signature res0 =
         (if r_status first = ''Executed'' then r_execution_result first else None)"
    by blast
  show ?thesis
    using assms(3,4) g(2,3)
    by (auto simp: callPaidService_def assms(1) g(1) Let_def split: sum.splits)
qed

text \<open>The example service answers with the statuses it was given.\<close>

lemma example_reply:
  "k < length statuses \<Longrightarrow>
     get_reply (exampleService statuses) k = Inr (Some (exampleRecord (statuses ! k)))"
  "get_reply (exampleService [status]) k = Inr (Some (exampleRecord status))"
  by (simp_all add: exampleService_def)

lemma example_status [simp]: "r_status (exampleRecord status) = status"
  by (simp add: exampleRecord_def)

section \<open>Outcomes of \<open>callPaidService\<close>\<close>

lemma example_polling [simp]:
  "pollingMaxAttempts twoAttempts = 2" "pollingInterval twoAttempts = 10"
  "pollingMaxAttempts None = 120" "pollingInterval None = 3000"
  by (simp_all add: pollingMaxAttempts_def pollingInterval_def orDefault_def twoAttempts_def)

lemma example_all_pending:
  "\<forall>k. \<exists>record. get_reply (exampleService [''Pending'']) k = Inr (Some record)
           \<and> \<not> isTerminal (r_status record)"
  by (simp add: example_reply(2) isTerminal_def)

text \<open>
  C1. As stated (the timeout comes after exactly \<open>maxAttempts\<close> non-terminal observations,
  and never more than \<open>maxAttempts\<close> observations are made) the claim fails: with
  \<open>maxAttempts = 2\<close> and a service that always answers \<open>Pending\<close> the status is
  observed three times, once right after submission and once in each of the two rounds
  of the loop.
\<close>

theorem callPaidService_timeout_counterexample:
  "callPaidService (exampleService [''Pending'']) exampleParams ''https://api'' twoAttempts
     = (Inl PollingTimeout,
        [CreateRequest exampleAction None, GetRequest 7,
         Sleep 10, GetRequest 7, Sleep 10, GetRequest 7])
   \<and> fetches [CreateRequest exampleAction None, GetRequest 7,
               Sleep 10, GetRequest 7, Sleep 10, GetRequest 7] = 3
   \<and> pollingMaxAttempts twoAttempts = 2"
  using callPaidService_all_pending [OF example_create_plain example_all_pending,
      of "''https://api''" twoAttempts]
  by (simp add: numeral_2_eq_2)

text \<open>
  C1, amended. Let \<open>m\<close> be the polling option \<open>maxAttempts\<close>, or 120 when the option is
  absent or 0, and 0 in place of a negative value. For every poll sequence in which no
  terminal status is ever observed, \<open>callPaidService\<close> raises its timeout error after
  one immediate observation and exactly \<open>m\<close> rounds of the loop, each a sleep followed by
  one observation: \<open>m + 1\<close> observations and \<open>m\<close> sleeps in all, never more.
\<close>

theorem callPaidService_timeout:
  assumes "createSignRequest env params [] = (Inr requestId, tr0)"
    and "\<forall>k. \<exists>record. get_reply env k = Inr (Some record) \<and> \<not> isTerminal (r_status record)"
  shows "\<exists>tr. callPaidService env params apiUrl polling = (Inl PollingTimeout, tr)
           \<and> tr = tr0 @ GetRequest requestId
                    # pollEvents requestId (pollingInterval polling)
                        (nat (pollingMaxAttempts polling))
           \<and> fetches tr = nat (pollingMaxAttempts polling) + 1
           \<and> sleeps tr = nat (pollingMaxAttempts polling)"
proof -
  from first_fetch [OF assms(1)] assms(2) have "fetches tr0 = 0" "sleeps tr0 = 0"
    by blast+
  with callPaidService_all_pending [OF assms, of apiUrl polling] show ?thesis
    by simp
qed

theorem callPaidService_timeout_witness:
  "createSignRequest (exampleService [''Pending'']) exampleParams []
     = (Inr 7, [CreateRequest exampleAction None])
   \<and> (\<forall>k. \<exists>record. get_reply (exampleService [''Pending'']) k = Inr (Some record)
           \<and> \<not> isTerminal (r_status record))
   \<and> callPaidService (exampleService [''Pending'']) exampleParams ''https://api'' None
     = (Inl PollingTimeout,
        CreateRequest exampleAction None # GetRequest 7 # pollEvents 7 3000 120)
   \<and> fetches (CreateRequest exampleAction None # GetRequest 7 # pollEvents 7 3000 120) = 121
   \<and> sleeps (CreateRequest exampleAction None # GetRequest 7 # pollEvents 7 3000 120) = 120"
  using callPaidService_timeout [OF example_create_plain example_all_pending,
      of "''https://api''" None]
    example_create_plain [of "[''Pending'']"] example_all_pending
  by simp

text \<open>
  C2. As stated (failure on the first observation of \<open>Rejected\<close>, with no further
  fetch and no further sleep after it) the claim fails when that first observation is the
  immediate fetch after submission: the immediate fetch is only tested for \<open>Executed\<close>,
  so the loop sleeps and fetches once more before it throws.
\<close>

theorem callPaidService_rejected_counterexample:
  "callPaidService (exampleService [''Rejected'']) exampleParams ''https://api'' twoAttempts
     = (Inl SignatureRejected,
        [CreateRequest exampleAction None, GetRequest 7, Sleep 10, GetRequest 7])"
proof -
  let ?env = "exampleService [''Rejected'']"
  have first: "get_reply ?env 0 = Inr (Some (exampleRecord ''Rejected''))"
    by (simp add: example_reply(2))
  have ne: "r_status (exampleRecord ''Rejected'') \<noteq> ''Executed''" by simp
  have pend: "\<forall>j<0. \<exists>record. get_reply ?env (Suc j) = Inr (Some record)
      \<and> \<not> isTerminal (r_status record)"
    by simp
  have final: "get_reply ?env (Suc 0) = Inr (Some (exampleRecord ''Rejected''))"
    by (simp add: example_reply(2))
  have fin: "isTerminal (r_status (exampleRecord ''Rejected''))"
    by (simp add: isTerminal_def)
  have bound: "int 0 < pollingMaxAttempts twoAttempts" by simp
  from callPaidService_pending_then
    [OF example_create_plain first ne pend final fin bound, of "''https://api''"]
  show ?thesis by (simp add: Let_def)
qed

text \<open>
  C2, amended. \<open>callPaidService\<close> classifies the statuses it fetches in the polling loop;
  the immediate fetch after submission is only tested for \<open>Executed\<close>. If that fetch
  shows a status other than \<open>Executed\<close>, the next \<open>n\<close> fetches show statuses that are not
  terminal and the fetch after them (within the attempt bound) shows \<open>Rejected\<close> or
  \<open>Expired\<close>, then the call fails with the rejection or the expiry error at that fetch:
  the trace ends with it, after \<open>n + 2\<close> fetches and \<open>n + 1\<close> sleeps. The sequence
  Pending, Pending, Rejected fails after exactly 3 fetches.
\<close>

theorem callPaidService_rejected_or_expired:
  assumes "createSignRequest env params [] = (Inr requestId, tr0)"
    and "get_reply env 0 = Inr (Some first)" and "r_status first \<noteq> ''Executed''"
    and "\<forall>j<n. \<exists>record. get_reply env (Suc j) = Inr (Some record)
                      \<and> \<not> isTerminal (r_status record)"
    and "get_reply env (Suc n) = Inr (Some final)"
    and "r_status final = ''Rejected'' \<or> r_status final = ''Expired''"
    and "int n < pollingMaxAttempts polling"
  shows "\<exists>tr. callPaidService env params apiUrl polling
             = (Inl (if r_status final = ''Rejected'' then SignatureRejected
                     else SignatureExpired), tr)
           \<and> tr = tr0 @ GetRequest requestId
                    # pollEvents requestId (pollingInterval polling) (Suc n)
           \<and> last tr = GetRequest requestId
           \<and> fetches tr = n + 2 \<and> sleeps tr = n + 1"
proof -
  have fin: "isTerminal (r_status final)"
    using assms(6) by (auto simp: isTerminal_def)
  from first_fetch [OF assms(1,2)] have zero: "fetches tr0 = 0" "sleeps tr0 = 0"
    by blast+
  have "last (tr0 @ GetRequest requestId
      # pollEvents requestId (pollingInterval polling) (Suc n)) = GetRequest requestId"
    using pollEvents_snoc [of requestId "pollingInterval polling" n, symmetric]
    by (simp del: pollEvents_simps)
  with callPaidService_pending_then [OF assms(1-5) fin assms(7), of apiUrl] assms(6) zero
  show ?thesis by (auto simp: Let_def)
qed

theorem callPaidService_rejected_or_expired_witness:
  "createSignRequest (exampleService [''Pending'', ''Pending'', ''Rejected'']) exampleParams []
     = (Inr 7, [CreateRequest exampleAction None])
   \<and> callPaidService (exampleService [''Pending'', ''Pending'', ''Rejected'']) exampleParams
       ''https://api'' None
     = (Inl SignatureRejected,
        [CreateRequest exampleAction None, GetRequest 7,
         Sleep 3000, GetRequest 7, Sleep 3000, GetRequest 7])
   \<and> fetches [CreateRequest exampleAction None, GetRequest 7,
               Sleep 3000, GetRequest 7, Sleep 3000, GetRequest 7] = 3"
proof -
  let ?env = "exampleService [''Pending'', ''Pending'', ''Rejected'']"
  have first: "get_reply ?env 0 = Inr (Some (exampleRecord ''Pending''))"
    by (simp add: example_reply(1))
  have ne: "r_status (exampleRecord ''Pending'') \<noteq> ''Executed''" by simp
  have pend: "\<forall>j<Suc 0. \<exists>record. get_reply ?env (Suc j) = Inr (Some record)
      \<and> \<not> isTerminal (r_status record)"
    by (simp add: example_reply(1) isTerminal_def)
  have final: "get_reply ?env (Suc (Suc 0)) = Inr (Some (exampleRecord ''Rejected''))"
    by (simp add: example_reply(1))
  have rej: "r_status (exampleRecord ''Rejected'') = ''Rejected''
      \<or> r_status (exampleRecord ''Rejected'') = ''Expired''"
    by simp
  have bound: "int (Suc 0) < pollingMaxAttempts None" by simp
  from callPaidService_rejected_or_expired
    [OF example_create_plain first ne pend final rej bound, of "''https://api''"]
  have "callPaidService ?env exampleParams ''https://api'' None
      = (Inl SignatureRejected,
         [CreateRequest exampleAction None, GetRequest 7,
          Sleep 3000, GetRequest 7, Sleep 3000, GetRequest 7])"
    by simp
  with example_create_plain [of "[''Pending'', ''Pending'', ''Rejected'']"] show ?thesis
    by simp
qed

text \<open>
  C3. When \<open>Executed\<close> is first observed in the last round the attempt bound allows, the
  loop leaves by \<open>break\<close> with \<open>attempts = maxAttempts\<close> and the check after the loop
  throws the timeout error although the signature has arrived. With the sequence
  Pending, Pending, Executed the call succeeds under the default bound of 120 and times
  out under a bound of 2, after the same three fetches.
\<close>

theorem callPaidService_executed_on_last_attempt:
  "callPaidService (exampleService [''Pending'', ''Pending'', ''Executed'']) exampleParams
       ''https://api'' twoAttempts
     = (Inl PollingTimeout,
        [CreateRequest exampleAction None, GetRequest 7,
         Sleep 10, GetRequest 7, Sleep 10, GetRequest 7])
   \<and> callPaidService (exampleService [''Pending'', ''Pending'', ''Executed'']) exampleParams
       ''https://api'' None
     = (Inr ''sunny'',
        [CreateRequest exampleAction None, GetRequest 7,
         Sleep 3000, GetRequest 7, Sleep 3000, GetRequest 7,
         HttpGet ''https://api'' ''0xabcd''])
   \<and> get_reply (exampleService [''Pending'', ''Pending'', ''Executed'']) 2
     = Inr (Some \<lparr>r_status = ''Executed'', r_execution_result = Some ''abcd'',
                   r_executed_at = Some 9000000, r_created_at = 5000000\<rparr>)"
proof -
  let ?env = "exampleService [''Pending'', ''Pending'', ''Executed'']"
  have first: "get_reply ?env 0 = Inr (Some (exampleRecord ''Pending''))"
    by (simp add: example_reply(1))
  have ne: "r_status (exampleRecord ''Pending'') \<noteq> ''Executed''" by simp
  have pend: "\<forall>j<Suc 0. \<exists>record. get_reply ?env (Suc j) = Inr (Some record)
      \<and> \<not> isTerminal (r_status record)"
    by (simp add: example_reply(1) isTerminal_def)
  have final: "get_reply ?env (Suc (Suc 0)) = Inr (Some (exampleRecord ''Executed''))"
    by (simp add: example_reply(1))
  have fin: "isTerminal (r_status (exampleRecord ''Executed''))"
    by (simp add: isTerminal_def)
  have bound2: "int (Suc 0) < pollingMaxAttempts twoAttempts" by simp
  have bound120: "int (Suc 0) < pollingMaxAttempts None" by simp
  have sig: "r_execution_result (exampleRecord ''Executed'') = Some ''abcd''"
    by (simp add: exampleRecord_def)
  from callPaidService_pending_then
    [OF example_create_plain first ne pend final fin bound2, of "''https://api''"]
  have a: "callPaidService ?env exampleParams ''https://api'' twoAttempts
      = (Inl PollingTimeout,
         [CreateRequest exampleAction None, GetRequest 7,
          Sleep 10, GetRequest 7, Sleep 10, GetRequest 7])"
    by (simp add: Let_def)
  from callPaidService_pending_then
    [OF example_create_plain first ne pend final fin bound120, of "''https://api''"]
  have b: "callPaidService ?env exampleParams ''https://api'' None
      = (Inr ''sunny'',
         [CreateRequest exampleAction None, GetRequest 7,
          Sleep 3000, GetRequest 7, Sleep 3000, GetRequest 7,
          HttpGet ''https://api'' ''0xabcd''])"
    by (simp add: Let_def sig startsWith_def exampleService_def)
  have c: "get_reply ?env 2
      = Inr (Some \<lparr>r_status = ''Executed'', r_execution_result = Some ''abcd'',
                    r_executed_at = Some 9000000, r_created_at = 5000000\<rparr>)"
    by (simp add: exampleService_def exampleRecord_def)
  from a b c show ?thesis by simp
qed

section \<open>Properties of the identity store\<close>

lemma saveIdentity_path:
  "getKeyPath (fst (saveIdentity lib c u mgr fs name k un dn)) name' = getKeyPath mgr name'"
  by (simp add: getKeyPath_def saveIdentity_def Let_def)

text \<open>What \<open>saveIdentity\<close> writes, and that it writes one file only.\<close>

lemma saveIdentity_file:
  "snd (saveIdentity lib c u mgr fs name k un dn) (getKeyPath mgr name) =
     Some (Json
       \<lparr>d_keyData = lib_toJSON lib k, d_principal = lib_principalText lib k,
        d_username =
          (case fs (getKeyPath mgr name) of
             Some (Json old) \<Rightarrow> if \<not> truthy un \<and> truthy (d_username old) then d_username old else un
           | _ \<Rightarrow> un),
        d_displayName =
          (case fs (getKeyPath mgr name) of
             Some (Json old) \<Rightarrow>
               if \<not> truthy dn \<and> truthy (d_displayName old) then d_displayName old else dn
           | _ \<Rightarrow> dn),
        d_createdAt =
          (case fs (getKeyPath mgr name) of Some (Json old) \<Rightarrow> d_createdAt old | _ \<Rightarrow> c),
        d_updatedAt = u\<rparr>)"
  by (simp add: saveIdentity_def Let_def split: option.splits fileContent.splits)

lemma saveIdentity_other_files:
  "p \<noteq> getKeyPath mgr name \<Longrightarrow> snd (saveIdentity lib c u mgr fs name k un dn) p = fs p"
  by (simp add: saveIdentity_def Let_def)

text \<open>What \<open>loadIdentity\<close> returns for a stored document.\<close>

lemma loadIdentity_stored:
  assumes "fs (getKeyPath mgr name) = Some (Json doc)"
  shows "loadIdentity lib mgr fs name =
     (case lib_fromJSON lib (d_keyData doc) of
        None \<Rightarrow> (Inl (KeyDataRefused name), False, mgr)
      | Some k \<Rightarrow>
          (Inr k, lib_principalText lib k \<noteq> d_principal doc,
           mgr\<lparr>activeIdentity := Some name,
               identityUsernameCache := (identityUsernameCache mgr)(name \<mapsto> d_username doc),
               identityDisplayNameCache :=
                 (identityDisplayNameCache mgr)(name \<mapsto> d_displayName doc)\<rparr>))"
  using assms by (simp add: loadIdentity_def)

text \<open>
  A load after a save returns the saved key pair without a principal mismatch, and reads
  the user name and display name that the save wrote, provided the library reads back
  the JSON form it produced.
\<close>

lemma saveIdentity_then_loadIdentity:
  assumes "lib_fromJSON lib (lib_toJSON lib k) = Some k"
    and "saveIdentity lib c u mgr fs name k un dn = (mgr', fs')"
  shows "\<exists>doc mgr''. fs' (getKeyPath mgr name) = Some (Json doc)
           \<and> loadIdentity lib mgr' fs' name = (Inr k, False, mgr'')
           \<and> d_principal doc = lib_principalText lib k
           \<and> identityUsernameCache mgr'' name = Some (d_username doc)
           \<and> identityDisplayNameCache mgr'' name = Some (d_displayName doc)"
proof -
  from assms(2) have parts: "mgr' = fst (saveIdentity lib c u mgr fs name k un dn)"
      "fs' = snd (saveIdentity lib c u mgr fs name k un dn)"
    by simp_all
  have path: "getKeyPath mgr' name = getKeyPath mgr name"
    unfolding parts by (rule saveIdentity_path)
  obtain doc where doc: "fs' (getKeyPath mgr name) = Some (Json doc)"
      "d_keyData doc = lib_toJSON lib k" "d_principal doc = lib_principalText lib k"
    unfolding parts using saveIdentity_file [of lib c u mgr fs name k un dn] by simp
  have stored: "fs' (getKeyPath mgr' name) = Some (Json doc)"
    using doc(1) path by simp
  have "loadIdentity lib mgr' fs' name =
      (Inr k, False,
       mgr'\<lparr>activeIdentity := Some name,
            identityUsernameCache := (identityUsernameCache mgr')(name \<mapsto> d_username doc),
            identityDisplayNameCache :=
              (identityDisplayNameCache mgr')(name \<mapsto> d_displayName doc)\<rparr>)"
    using loadIdentity_stored [where fs = fs' and mgr = mgr' and name = name and doc = doc
        and lib = lib, OF stored]
    by (simp add: doc(2,3) assms(1))
  with doc(1,3) show ?thesis by simp
qed

text \<open>
  \<open>generateIdentity\<close> over an existing file, with \<open>overwrite\<close> and no display name: the
  default display name is written whatever the file held; the creation time is kept,
  and so is a truthy stored user name when none is supplied.
\<close>

lemma generateIdentity_over_existing:
  assumes "fs (getKeyPath mgr name) = Some (Json old)" and "\<not> truthy displayName"
  shows "\<exists>new. snd (snd (generateIdentity lib c u k mgr fs name True username displayName))
                 (getKeyPath mgr name) = Some (Json new)
           \<and> d_displayName new = Some ''x402MultiSig''
           \<and> d_createdAt new = d_createdAt old
           \<and> d_username new =
               (if \<not> truthy username \<and> truthy (d_username old) then d_username old
                else username)"
  using assms saveIdentity_file [of lib c u mgr fs name k username "Some ''x402MultiSig''"]
  by (simp add: generateIdentity_def Let_def)

lemma example_path: "getKeyPath exampleManager ''default'' = ''ids/default.json''"
  by (simp add: getKeyPath_def exampleManager_def)

text \<open>
  C8. The stored display name does not survive a save that supplies none. The only
  callers of \<open>saveIdentity\<close> replace a missing display name by \<open>x402MultiSig\<close> before
  they call it, so its branch that keeps the stored display name never runs: over a
  file that holds the user name \<open>payment_bot\<close> and the display name \<open>Alice\<close>,
  \<open>generateIdentity\<close> with \<open>overwrite\<close> and neither name writes the display name
  \<open>x402MultiSig\<close>. The user name and the creation time are kept.
\<close>

theorem generateIdentity_overwrites_displayName:
  "exampleFiles (Some ''payment_bot'') (Some ''Alice'') ''ids/default.json''
     = Some (Json \<lparr>d_keyData = exampleKey, d_principal = ''principal-of-key'',
                    d_username = Some ''payment_bot'', d_displayName = Some ''Alice'',
                    d_createdAt = ''2024-01-01T00:00:00.000Z'',
                    d_updatedAt = ''2024-01-01T00:00:00.000Z''\<rparr>)
   \<and> snd (snd (generateIdentity exampleLibrary ''2025-06-01T00:00:00.000Z''
               ''2025-06-01T00:00:00.000Z'' exampleKey exampleManager
               (exampleFiles (Some ''payment_bot'') (Some ''Alice'')) ''default'' True
               None None))
        ''ids/default.json''
     = Some (Json \<lparr>d_keyData = exampleKey, d_principal = ''principal-of-key'',
                    d_username = Some ''payment_bot'', d_displayName = Some ''x402MultiSig'',
                    d_createdAt = ''2024-01-01T00:00:00.000Z'',
                    d_updatedAt = ''2025-06-01T00:00:00.000Z''\<rparr>)"
  using saveIdentity_file [of exampleLibrary "''2025-06-01T00:00:00.000Z''"
      "''2025-06-01T00:00:00.000Z''" exampleManager
      "exampleFiles (Some ''payment_bot'') (Some ''Alice'')"
      "''default''" exampleKey None "Some ''x402MultiSig''"]
  by (simp add: generateIdentity_def Let_def example_path exampleFiles_def exampleStored_def
      exampleLibrary_def)

end
